theory Spec2Isabelle
  imports Complex_Main "HOL-Library.Multiset"
begin

section \<open>Strings\<close>

text \<open>
  A JavaScript string is a sequence of UTF-16 code units. The model uses \<open>string\<close>, whose
  characters are the code units U+0000 to U+00FF: that covers every literal of the two
  source files (the accented keys of the city tables are Latin-1 letters). The string
  methods the code calls are modelled on that range:
  \<^item> \<open>toUpperCase\<close>, \<open>toLowerCase\<close>: the ASCII letters and the Latin-1 letters whose other
    case is again a Latin-1 letter. JavaScript sends U+00DF to two letters and U+00FF, U+00B5
    outside Latin-1; the model leaves these three unchanged, and \<open>modelled_case\<close> says that a
    string has none of them;
  \<^item> \<open>trim\<close>: the white space and line terminators below U+0100;
  \<^item> \<open>substring(0, n)\<close>: the first \<open>n\<close> code units, fewer when the string is shorter.
\<close>

definition code_unit :: "char \<Rightarrow> nat" where
  "code_unit c = of_char c"

definition toUpperChar :: "char \<Rightarrow> char" where
  "toUpperChar c =
     (let n = code_unit c in
      if (97 \<le> n \<and> n \<le> 122) \<or> (224 \<le> n \<and> n \<le> 254 \<and> n \<noteq> 247)
      then char_of (n - 32) else c)"

definition toLowerChar :: "char \<Rightarrow> char" where
  "toLowerChar c =
     (let n = code_unit c in
      if (65 \<le> n \<and> n \<le> 90) \<or> (192 \<le> n \<and> n \<le> 222 \<and> n \<noteq> 215)
      then char_of (n + 32) else c)"

definition toUpperCase :: "string \<Rightarrow> string" where
  "toUpperCase s = map toUpperChar s"

definition toLowerCase :: "string \<Rightarrow> string" where
  "toLowerCase s = map toLowerChar s"


definition is_space :: "char \<Rightarrow> bool" where
  "is_space c = (code_unit c \<in> {9, 10, 11, 12, 13, 32, 160})"

definition trim :: "string \<Rightarrow> string" where
  "trim s = rev (dropWhile is_space (rev (dropWhile is_space s)))"

definition substring0 :: "string \<Rightarrow> nat \<Rightarrow> string" where
  "substring0 s n = take n s"

text \<open>The character classes of the regular expressions: \<open>[A-Z]\<close>, \<open>[A-Z]\<close> under the
  flag \<open>i\<close>, and the word characters that decide \<open>\b\<close>.\<close>

definition is_AZ :: "char \<Rightarrow> bool" where
  "is_AZ c = (65 \<le> code_unit c \<and> code_unit c \<le> 90)"

definition is_letter :: "char \<Rightarrow> bool" where
  "is_letter c = (is_AZ c \<or> (97 \<le> code_unit c \<and> code_unit c \<le> 122))"

definition is_word :: "char \<Rightarrow> bool" where
  "is_word c = (is_letter c \<or> (48 \<le> code_unit c \<and> code_unit c \<le> 57) \<or> code_unit c = 95)"

text \<open>\<open>/^[A-Z]{3}$/.test(s)\<close>\<close>

definition is_iata :: "string \<Rightarrow> bool" where
  "is_iata s = (length s = 3 \<and> list_all is_AZ s)"

text \<open>\<open>s.match(/\b([A-Z]{3})\b/i)\<close>: the leftmost run of exactly three letters with a word
  boundary on both sides. \<open>run3 s\<close> says that \<open>s\<close> starts with three letters that a word
  boundary follows; the first argument of \<open>match_iata\<close> says whether the previous character
  is a word character.\<close>

definition run3 :: "string \<Rightarrow> bool" where
  "run3 s =
     (case s of
        a # b # c # rest \<Rightarrow>
          is_letter a \<and> is_letter b \<and> is_letter c \<and>
          (case rest of [] \<Rightarrow> True | d # _ \<Rightarrow> \<not> is_word d)
      | _ \<Rightarrow> False)"

fun match_iata :: "bool \<Rightarrow> string \<Rightarrow> string option" where
  "match_iata prev [] = None"
| "match_iata prev (c # cs) =
     (if \<not> prev \<and> run3 (c # cs) then Some (take 3 (c # cs))
      else match_iata (is_word c) cs)"

text \<open>\<open>a || b\<close> on strings: the empty string is the falsy one. A missing key of an object
  literal reads as \<open>undefined\<close>, which is falsy as well.\<close>

definition or_str :: "string \<Rightarrow> string \<Rightarrow> string" where
  "or_str a b = (if a \<noteq> [] then a else b)"

definition lookup_or :: "(string \<times> string) list \<Rightarrow> string \<Rightarrow> string \<Rightarrow> string" where
  "lookup_or table k d = (case map_of table k of Some v \<Rightarrow> or_str v d | None \<Rightarrow> d)"

section \<open>CityCodeResolver\<close>

text \<open>The table of \<open>getCityCode\<close> in \<open>multiAPI.js\<close>.\<close>

definition cityMap :: "(string \<times> string) list" where
  "cityMap =
    [(''s'' @ [CHR 0xE3] @ ''o paulo'', ''SAO''), (''sao paulo'', ''SAO''),
     (''rio de janeiro'', ''RIO''), (''rio'', ''RIO''),
     (''bras'' @ [CHR 0xED] @ ''lia'', ''BSB''), (''brasilia'', ''BSB''),
     (''salvador'', ''SSA''), (''fortaleza'', ''FOR''),
     (''belo horizonte'', ''CNF''), (''manaus'', ''MAO''),
     (''curitiba'', ''CWB''), (''porto alegre'', ''POA''),
     (''recife'', ''REC''), (''bel'' @ [CHR 0xE9] @ ''m'', ''BEL''), (''belem'', ''BEL''),
     (''goi'' @ [CHR 0xE2] @ ''nia'', ''GYN''), (''goiania'', ''GYN''),
     (''vit'' @ [CHR 0xF3] @ ''ria'', ''VIX''), (''vitoria'', ''VIX''),
     (''florian'' @ [CHR 0xF3] @ ''polis'', ''FLN''), (''florianopolis'', ''FLN''),
     (''campinas'', ''VCP''), (''guarulhos'', ''GRU''),
     (''congonhas'', ''CGH''), (''santos dumont'', ''SDU'')]"

text \<open>The table of \<open>getCityCode\<close> in the flight service (\<open>unnamed/part_000\<close>): the same
  entries, then the international cities.\<close>

definition cityMap_flights :: "(string \<times> string) list" where
  "cityMap_flights = cityMap @
    [(''roma'', ''FCO''), (''rome'', ''FCO''), (''paris'', ''CDG''),
     (''londres'', ''LHR''), (''london'', ''LHR''),
     (''nova york'', ''JFK''), (''new york'', ''JFK''),
     (''miami'', ''MIA''), (''orlando'', ''MCO''),
     (''lisboa'', ''LIS''), (''lisbon'', ''LIS''),
     (''madrid'', ''MAD''), (''barcelona'', ''BCN''),
     (''amsterdam'', ''AMS''), (''frankfurt'', ''FRA''),
     (''munique'', ''MUC''), (''munich'', ''MUC''),
     (''zurich'', ''ZRH''), (''viena'', ''VIE''), (''vienna'', ''VIE''),
     (''atenas'', ''ATH''), (''athens'', ''ATH''),
     (''dubai'', ''DXB''), (''doha'', ''DOH''),
     (''singapura'', ''SIN''), (''singapore'', ''SIN''),
     (''tokyo'', ''NRT''), (''hong kong'', ''HKG''),
     (''sydney'', ''SYD''), (''melbourne'', ''MEL''),
     (''buenos aires'', ''EZE''), (''santiago'', ''SCL''), (''lima'', ''LIM''),
     (''bogot'' @ [CHR 0xE1], ''BOG''), (''bogota'', ''BOG''),
     (''cidade do m'' @ [CHR 0xE9] @ ''xico'', ''MEX''), (''mexico city'', ''MEX'')]"


definition normalized :: "string \<Rightarrow> string" where
  "normalized city = trim (toLowerCase city)"

text \<open>\<open>getCityCode\<close> of \<open>multiAPI.js\<close>.\<close>

definition getCityCode :: "string \<Rightarrow> string" where
  "getCityCode city =
     (if is_iata (toUpperCase (trim city)) then toUpperCase (trim city)
      else lookup_or cityMap (normalized city) (toUpperCase (substring0 city 3)))"

text \<open>\<open>getCityCode\<close> of the flight service: table, then an embedded three-letter token,
  then the first three characters.\<close>

definition getCityCode_flights :: "string \<Rightarrow> string" where
  "getCityCode_flights city =
     (if is_iata (toUpperCase (trim city)) then toUpperCase (trim city)
      else
        (case map_of cityMap_flights (normalized city) of
           Some code \<Rightarrow>
             (if code \<noteq> [] then code
              else (case match_iata False city of
                      Some m \<Rightarrow> toUpperCase m
                    | None \<Rightarrow> toUpperCase (substring0 city 3)))
         | None \<Rightarrow>
             (case match_iata False city of
                Some m \<Rightarrow> toUpperCase m
              | None \<Rightarrow> toUpperCase (substring0 city 3))))"

section \<open>Numbers, values and the host\<close>

text \<open>
  A JavaScript number is a double. The model's numbers are the reals, with exact
  arithmetic; where a builtin can answer \<open>NaN\<close> the model has an option and \<open>None\<close> is the
  \<open>NaN\<close>; the infinities are not modelled. A JSON payload is a \<open>jsv\<close>; an object is the list
  of its fields, read by key.
\<close>

datatype jsv =
    JUndef
  | JNull
  | JBool bool
  | JNum real
  | JNaN
  | JStr string
  | JArr "jsv list"
  | JObj "(string \<times> jsv) list"

text \<open>
  The builtins and the surroundings that the code reads and the repository does not
  define are the fields of a \<open>host\<close>: every function that calls one takes the host as its
  first argument, and every theorem holds for every host.
  \<^item> \<open>parseFloat\<close>, \<open>parseInt\<close> on a string (\<open>None\<close>: \<open>NaN\<close>);
  \<^item> \<open>numberText\<close>: the text of a number in a template string;
  \<^item> \<open>now\<close>: \<open>Date.now()\<close>; \<open>nowISO\<close>: \<open>new Date().toISOString()\<close>;
  \<^item> \<open>random i k\<close>: the \<open>k\<close>-th draw of \<open>Math.random()\<close> while the offer at index \<open>i\<close> is built;
  \<^item> \<open>toFixed2\<close>: \<open>x.toFixed(2)\<close>;
  \<^item> \<open>dateOf\<close>: the time value of \<open>new Date(s)\<close>, in milliseconds, \<open>None\<close> for an invalid date;
    \<open>toISOString\<close>: the text of a valid date; \<open>setHours\<close>: the time value after
    \<open>setHours(h, m)\<close>, which depends on the time zone of the host.
\<close>

record host =
  parseFloat :: "string \<Rightarrow> real option"
  parseInt :: "string \<Rightarrow> int option"
  numberText :: "real \<Rightarrow> string"
  now :: nat
  nowISO :: string
  toFixed2 :: "real \<Rightarrow> string"
  random :: "nat \<Rightarrow> nat \<Rightarrow> real"
  dateOf :: "string \<Rightarrow> int option"
  toISOString :: "int \<Rightarrow> string"
  setHours :: "int \<Rightarrow> nat \<Rightarrow> nat \<Rightarrow> int"

text \<open>\<open>new Date(s).toISOString().split('T')[0]\<close>: \<open>None\<close> when \<open>s\<close> is not a date and
  \<open>toISOString\<close> raises a \<open>RangeError\<close>.\<close>

definition isoDate :: "host \<Rightarrow> string \<Rightarrow> string option" where
  "isoDate H s =
     (case dateOf H s of
        Some t \<Rightarrow> Some (takeWhile (\<lambda>c. c \<noteq> CHR ''T'') (toISOString H t))
      | None \<Rightarrow> None)"

text \<open>\<open>Math.random()\<close> is a number from 0 up to but not including 1: the fractional part
  of what the host draws.\<close>

definition draw :: "host \<Rightarrow> nat \<Rightarrow> nat \<Rightarrow> real" where
  "draw H i k = random H i k - real_of_int \<lfloor>random H i k\<rfloor>"

section \<open>Provider payloads\<close>

text \<open>An offer of the OAuth REST provider's response, with the fields the code reads; a field
  the response leaves out is \<open>None\<close>.\<close>

record endpoint =
  iataCode :: "string option"
  at_time :: "string option"

record amadeus_segment =
  departure :: "endpoint option"
  arrival :: "endpoint option"
  seg_duration :: "string option"
  carrierCode :: "string option"
  seg_number :: "string option"

record itinerary =
  it_duration :: "string option"
  segments :: "amadeus_segment list option"

record amadeus_price =
  price_total :: "string option"
  price_currency :: "string option"
  price_base :: "string option"

record amadeus_offer =
  offer_id :: "string option"
  price :: "amadeus_price option"
  itineraries :: "itinerary list option"
  offer_source :: "string option"

record amadeus_params =
  originLocationCode :: string
  destinationLocationCode :: string
  departureDate :: string
  adults :: nat
  max_offers :: nat
  returnDate :: "string option"

text \<open>What an adapter keeps of the provider's offer as \<open>_originalOffer\<close>: the offer
  itself.\<close>

datatype original = AmadeusOffer amadeus_offer | TravelLinkVoo jsv

section \<open>Offers\<close>

text \<open>
  One flown leg, as the adapters write it into \<open>detalhes\<close>; a field the provider left out
  is \<open>undefined\<close>, here \<open>None\<close>.
\<close>

record segmento =
  seg_origem :: "string option"
  seg_destino :: "string option"
  partida :: "string option"
  chegada :: "string option"
  duracao :: "string option"
  seg_companhia :: "string option"
  numeroVoo :: "string option"

record detalhes =
  ida :: "segmento list option"
  volta :: "segmento list option"

text \<open>The price an adapter hands over: a number, a text, or nothing.\<close>

datatype preco_in = PrecoAbsent | PrecoNum real | PrecoText string

text \<open>
  The object an adapter builds for one offer and passes to \<open>normalizeFlight\<close>. Text fields
  are strings, and the empty string stands for a missing field too: both are falsy, and
  the code only ever reads these fields through \<open>||\<close>.
\<close>

record voo_in =
  in_id :: string
  in_preco :: preco_in
  in_moeda :: string
  in_companhia :: string
  in_origem :: string
  in_destino :: string
  in_dataIda :: string
  in_dataVolta :: "string option"
  in_duracaoIda :: string
  in_duracaoVolta :: "string option"
  in_escalasIda :: int
  in_escalasVolta :: "int option"
  in_detalhes :: "detalhes option"
  in_linkReserva :: string
  in_originalOffer :: "original option"

text \<open>The normalized offer that \<open>normalizeFlight\<close> returns.\<close>

record voo =
  voo_id :: string
  preco :: real
  moeda :: string
  companhia :: string
  origem :: string
  destino :: string
  dataIda :: string
  dataVolta :: "string option"
  duracaoIda :: string
  duracaoVolta :: "string option"
  escalasIda :: int
  escalasVolta :: "int option"
  detalhes :: detalhes
  linkReserva :: string
  fonte :: string
  confiabilidade :: real
  originalOffer :: "original option"

text \<open>Truthiness of a price, and \<open>parseFloat\<close> of it: of nothing it is \<open>NaN\<close>, of a number
  the number, of the empty text \<open>NaN\<close>, of another text what the host reads.\<close>

definition truthy_preco :: "preco_in \<Rightarrow> bool" where
  "truthy_preco p =
     (case p of PrecoAbsent \<Rightarrow> False | PrecoNum r \<Rightarrow> r \<noteq> 0 | PrecoText s \<Rightarrow> s \<noteq> [])"

definition parseFloat_of :: "host \<Rightarrow> preco_in \<Rightarrow> real option" where
  "parseFloat_of H p =
     (case p of
        PrecoAbsent \<Rightarrow> None
      | PrecoNum r \<Rightarrow> Some r
      | PrecoText s \<Rightarrow> (if s = [] then None else parseFloat H s))"

text \<open>\<open>x || d\<close> on a number that may be \<open>NaN\<close>, on an optional text and on an optional
  number: zero, the empty text, \<open>NaN\<close>, \<open>null\<close> and \<open>undefined\<close> are falsy.\<close>

definition or_num :: "real option \<Rightarrow> real \<Rightarrow> real" where
  "or_num x d = (case x of Some r \<Rightarrow> (if r \<noteq> 0 then r else d) | None \<Rightarrow> d)"

definition or_null :: "string option \<Rightarrow> string option" where
  "or_null x = (case x of Some s \<Rightarrow> (if s \<noteq> [] then Some s else None) | None \<Rightarrow> None)"

definition or_null_int :: "int option \<Rightarrow> int option" where
  "or_null_int x = (case x of Some n \<Rightarrow> (if n \<noteq> 0 then Some n else None) | None \<Rightarrow> None)"

section \<open>ReliabilityScorer and Normalizer\<close>

text \<open>\<open>flight.detalhes && flight.detalhes.ida && flight.detalhes.ida.length > 0\<close>\<close>

definition has_ida :: "voo_in \<Rightarrow> bool" where
  "has_ida flight =
     (case in_detalhes flight of
        None \<Rightarrow> False
      | Some d \<Rightarrow> (case ida d of None \<Rightarrow> False | Some segs \<Rightarrow> 0 < length segs))"

text \<open>\<open>flight.preco && parseFloat(flight.preco) > 0\<close>\<close>

definition has_preco :: "host \<Rightarrow> voo_in \<Rightarrow> bool" where
  "has_preco H flight =
     (truthy_preco (in_preco flight) \<and>
      (case parseFloat_of H (in_preco flight) of None \<Rightarrow> False | Some r \<Rightarrow> 0 < r))"

definition calculateReliability :: "host \<Rightarrow> voo_in \<Rightarrow> string \<Rightarrow> real" where
  "calculateReliability H flight source =
     (let score = 0.5;
          score = (if source = ''TRAVELLINK'' then score + 0.4
                   else if source = ''AMADEUS'' then score + 0.3
                   else if source = ''AVIATIONSTACK'' then score + 0.2
                   else score);
          score = (if has_ida flight then score + 0.1 else score);
          score = (if has_preco H flight then score + 0.1 else score)
      in min 1.0 score)"

text \<open>\<open>normalizeFlight\<close>; \<open>rnd\<close> is the \<open>Math.random()\<close> of the call.\<close>

definition normalizeFlight :: "host \<Rightarrow> real \<Rightarrow> voo_in \<Rightarrow> string \<Rightarrow> voo" where
  "normalizeFlight H rnd flight source =
     \<lparr> voo_id = or_str (in_id flight)
                  (source @ ''-'' @ numberText H (real (now H)) @ ''-'' @ numberText H rnd),
       preco = or_num (parseFloat_of H (in_preco flight)) 0,
       moeda = or_str (in_moeda flight) ''BRL'',
       companhia = or_str (in_companhia flight) ''N/A'',
       origem = or_str (in_origem flight) [],
       destino = or_str (in_destino flight) [],
       dataIda = or_str (in_dataIda flight) [],
       dataVolta = or_null (in_dataVolta flight),
       duracaoIda = or_str (in_duracaoIda flight) ''N/A'',
       duracaoVolta = or_null (in_duracaoVolta flight),
       escalasIda = (if in_escalasIda flight \<noteq> 0 then in_escalasIda flight else 0),
       escalasVolta = or_null_int (in_escalasVolta flight),
       detalhes = (case in_detalhes flight of Some d \<Rightarrow> d | None \<Rightarrow> \<lparr> ida = None, volta = None \<rparr>),
       linkReserva = or_str (in_linkReserva flight) source,
       fonte = source,
       confiabilidade = calculateReliability H flight source,
       originalOffer = in_originalOffer flight \<rparr>"





section \<open>Deduplicator\<close>

text \<open>The key: \<open>`${origem}-${destino}-${dataIda?.substring(0, 10)}-${companhia}`\<close>\<close>

definition dedup_key :: "voo \<Rightarrow> string" where
  "dedup_key flight =
     origem flight @ ''-'' @ destino flight @ ''-'' @ substring0 (dataIda flight) 10 @ ''-'' @
     companhia flight"

text \<open>\<open>flight.detalhes?.ida?.length || 0\<close>\<close>

definition ida_length :: "voo \<Rightarrow> nat" where
  "ida_length flight = (case ida (detalhes flight) of Some segs \<Rightarrow> length segs | None \<Rightarrow> 0)"

text \<open>\<open>Array.prototype.findIndex\<close>: the first index whose element passes, \<open>None\<close> for -1.\<close>

fun findIndex :: "('a \<Rightarrow> bool) \<Rightarrow> 'a list \<Rightarrow> nat option" where
  "findIndex p [] = None"
| "findIndex p (x # xs) =
     (if p x then Some 0 else (case findIndex p xs of Some i \<Rightarrow> Some (Suc i) | None \<Rightarrow> None))"

text \<open>The test of the \<open>else\<close> branch: does the incoming offer replace the stored one?\<close>

definition replaces :: "voo \<Rightarrow> voo \<Rightarrow> bool" where
  "replaces flight existing =
     (confiabilidade existing < confiabilidade flight \<or> ida_length existing < ida_length flight)"

text \<open>One turn of the loop of \<open>deduplicateFlights\<close> on the state \<open>(seen, unique)\<close>.\<close>

definition dedup_step :: "voo \<Rightarrow> (string \<rightharpoonup> voo) \<times> voo list \<Rightarrow> (string \<rightharpoonup> voo) \<times> voo list" where
  "dedup_step flight st =
     (let seen = fst st; unique = snd st; key = dedup_key flight in
      case seen key of
        None \<Rightarrow> (seen(key \<mapsto> flight), unique @ [flight])
      | Some existing \<Rightarrow>
          (if replaces flight existing
           then (seen(key \<mapsto> flight),
                 (case findIndex (\<lambda>f. voo_id f = voo_id existing) unique of
                    Some index \<Rightarrow> unique[index := flight]
                  | None \<Rightarrow> unique))
           else (seen, unique)))"

definition dedup_loop :: "voo list \<Rightarrow> (string \<rightharpoonup> voo) \<times> voo list" where
  "dedup_loop flights = fold dedup_step flights (Map.empty, [])"

definition deduplicateFlights :: "voo list \<Rightarrow> voo list" where
  "deduplicateFlights flights = snd (dedup_loop flights)"

section \<open>Ranking\<close>

text \<open>
  The comparator that \<open>searchFlightsMultiAPI\<close> gives to \<open>sort\<close>, and \<open>Array.prototype.sort\<close>
  itself, which is a stable sort: an insertion sort that puts an element in front of the
  first one it does not come after.
\<close>

definition compareFlights :: "voo \<Rightarrow> voo \<Rightarrow> real" where
  "compareFlights a b =
     (if confiabilidade b \<noteq> confiabilidade a then confiabilidade b - confiabilidade a
      else preco a - preco b)"

fun insert_by :: "('a \<Rightarrow> 'a \<Rightarrow> real) \<Rightarrow> 'a \<Rightarrow> 'a list \<Rightarrow> 'a list" where
  "insert_by cmp x [] = [x]"
| "insert_by cmp x (y # ys) =
     (if cmp x y \<le> 0 then x # y # ys else y # insert_by cmp x ys)"

definition js_sort :: "('a \<Rightarrow> 'a \<Rightarrow> real) \<Rightarrow> 'a list \<Rightarrow> 'a list" where
  "js_sort cmp xs = foldr (insert_by cmp) xs []"


section \<open>Errors, configuration and the remote services\<close>

text \<open>
  A raised value is an \<open>Error\<close> object: its message, and for a failed HTTP exchange the
  status of the response, the error code of the transport and the detail of the first
  error in the response body, where there are any. A function that can raise returns
  \<open>js_error + 'a\<close>, with \<open>Inl\<close> for the raise; the result of an \<open>async\<close> function is the
  outcome its promise settles with.
\<close>

record js_error =
  message :: string
  status :: "nat option"
  code :: "string option"
  detail :: "string option"

definition Error :: "string \<Rightarrow> js_error" where
  "Error msg = \<lparr> message = msg, status = None, code = None, detail = None \<rparr>"

text \<open>\<open>API_CONFIG\<close>, as far as the code reads it, and \<open>USE_MOCK_FLIGHTS\<close> of the flight
  service. The source sets \<open>travellink.enabled\<close> to \<open>true\<close>; the other two follow the
  environment.\<close>

record config =
  travellink_enabled :: bool
  amadeus_enabled :: bool
  aviationstack_enabled :: bool
  USE_MOCK_FLIGHTS :: bool

datatype provider = TRAVELLINK | AMADEUS | AVIATIONSTACK

fun tag :: "provider \<Rightarrow> string" where
  "tag TRAVELLINK = ''TRAVELLINK''"
| "tag AMADEUS = ''AMADEUS''"
| "tag AVIATIONSTACK = ''AVIATIONSTACK''"

text \<open>The carrier table of \<open>searchAmadeus\<close> and \<open>formatarVooTravelLink\<close>.\<close>

definition companhiaMap :: "(string \<times> string) list" where
  "companhiaMap =
    [(''LA'', ''LATAM''), (''G3'', ''GOL''), (''AD'', ''Azul''), (''JJ'', ''LATAM''),
     (''TP'', ''TAP''), (''AF'', ''Air France''), (''KL'', ''KLM''), (''LH'', ''Lufthansa''),
     (''EK'', ''Emirates''), (''QR'', ''Qatar Airways''), (''AA'', ''American Airlines''),
     (''DL'', ''Delta''), (''UA'', ''United''), (''BA'', ''British Airways'')]"

subsection \<open>The OAuth REST provider\<close>

text \<open>Reading an optional text: \<open>undefined\<close> and the empty text are falsy.\<close>

definition text_or :: "string option \<Rightarrow> string \<Rightarrow> string" where
  "text_or x d = (case x of Some s \<Rightarrow> or_str s d | None \<Rightarrow> d)"

definition first_segment :: "itinerary \<Rightarrow> amadeus_segment option" where
  "first_segment it =
     (case segments it of Some (s # _) \<Rightarrow> Some s | _ \<Rightarrow> None)"

definition last_segment :: "itinerary \<Rightarrow> amadeus_segment option" where
  "last_segment it =
     (case segments it of
        Some segs \<Rightarrow> (if segs = [] then None else Some (last segs))
      | None \<Rightarrow> None)"

definition departure_code :: "amadeus_segment option \<Rightarrow> string option" where
  "departure_code s =
     (case s of Some g \<Rightarrow> (case departure g of Some e \<Rightarrow> iataCode e | None \<Rightarrow> None) | None \<Rightarrow> None)"

definition departure_at :: "amadeus_segment option \<Rightarrow> string option" where
  "departure_at s =
     (case s of Some g \<Rightarrow> (case departure g of Some e \<Rightarrow> at_time e | None \<Rightarrow> None) | None \<Rightarrow> None)"

definition arrival_code :: "amadeus_segment option \<Rightarrow> string option" where
  "arrival_code s =
     (case s of Some g \<Rightarrow> (case arrival g of Some e \<Rightarrow> iataCode e | None \<Rightarrow> None) | None \<Rightarrow> None)"

definition arrival_at :: "amadeus_segment option \<Rightarrow> string option" where
  "arrival_at s =
     (case s of Some g \<Rightarrow> (case arrival g of Some e \<Rightarrow> at_time e | None \<Rightarrow> None) | None \<Rightarrow> None)"

text \<open>\<open>duration.match(/(\d+)H(\d+)?M/)\<close>: the leftmost place where digits, an \<open>H\<close>, digits
  or none, and an \<open>M\<close> follow one another; the result is the two groups.\<close>

definition is_digit :: "char \<Rightarrow> bool" where
  "is_digit c = (48 \<le> code_unit c \<and> code_unit c \<le> 57)"

definition match_HM_here :: "string \<Rightarrow> (string \<times> string option) option" where
  "match_HM_here s =
     (let d1 = takeWhile is_digit s; r1 = dropWhile is_digit s in
      if d1 = [] then None
      else (case r1 of
              [] \<Rightarrow> None
            | h # r2 \<Rightarrow>
                (if h \<noteq> CHR ''H'' then None
                 else (let d2 = takeWhile is_digit r2; r3 = dropWhile is_digit r2 in
                       case r3 of
                         [] \<Rightarrow> None
                       | m # _ \<Rightarrow>
                           (if m \<noteq> CHR ''M'' then None
                            else Some (d1, if d2 = [] then None else Some d2))))))"

fun match_HM :: "string \<Rightarrow> (string \<times> string option) option" where
  "match_HM [] = None"
| "match_HM (c # cs) =
     (case match_HM_here (c # cs) of Some m \<Rightarrow> Some m | None \<Rightarrow> match_HM cs)"

text \<open>\<open>parseInt(x) || 0\<close>\<close>

definition parseInt_or0 :: "host \<Rightarrow> string option \<Rightarrow> int" where
  "parseInt_or0 H x =
     (case x of
        None \<Rightarrow> 0
      | Some s \<Rightarrow> (case parseInt H s of Some n \<Rightarrow> (if n \<noteq> 0 then n else 0) | None \<Rightarrow> 0))"

definition calculateDuration :: "host \<Rightarrow> itinerary \<Rightarrow> string" where
  "calculateDuration H it =
     (case segments it of
        None \<Rightarrow> ''0h 0m''
      | Some segs \<Rightarrow>
          (if segs = [] then ''0h 0m''
           else (case (case it_duration it of Some d \<Rightarrow> match_HM d | None \<Rightarrow> None) of
                   Some (g1, g2) \<Rightarrow>
                     numberText H (real_of_int (parseInt_or0 H (Some g1))) @ ''h '' @
                     numberText H (real_of_int (parseInt_or0 H g2)) @ ''m''
                 | None \<Rightarrow> text_or (it_duration it) ''N/A'')))"

text \<open>The segment record of \<open>detalhes\<close> that the adapter writes for a segment of the
  response.\<close>

definition segmento_of :: "(string \<times> string) list \<Rightarrow> amadeus_segment \<Rightarrow> segmento" where
  "segmento_of table seg =
     \<lparr> seg_origem = departure_code (Some seg),
       seg_destino = arrival_code (Some seg),
       partida = departure_at (Some seg),
       chegada = arrival_at (Some seg),
       duracao = seg_duration seg,
       seg_companhia =
         (case carrierCode seg of
            Some c \<Rightarrow> Some (lookup_or table c c)
          | None \<Rightarrow> None),
       numeroVoo = seg_number seg \<rparr>"

text \<open>\<open>(it.segments?.length || 1) - 1\<close>\<close>

definition escalas_of :: "itinerary \<Rightarrow> int" where
  "escalas_of it =
     (case segments it of
        Some segs \<Rightarrow> (if length segs \<noteq> 0 then int (length segs) else 1) - 1
      | None \<Rightarrow> 1 - 1)"

definition empty_itinerary :: itinerary where
  "empty_itinerary = \<lparr> it_duration = None, segments = None \<rparr>"

text \<open>
  The object that the callback of \<open>data.map\<close> builds for the offer at \<open>index\<close>, in
  \<open>searchAmadeus\<close> and in \<open>formatAmadeusResults\<close> of the flight service alike. The two
  copies differ in the carrier table, in the prefix of a made-up id, in \<open>linkReserva\<close> and
  in \<open>_originalOffer\<close>; the first two are arguments here, the last two are set by
  \<open>amadeus_voo_in\<close> and \<open>flights_voo_in\<close> below.
\<close>

definition offer_voo_in ::
  "host \<Rightarrow> (string \<times> string) list \<Rightarrow> string \<Rightarrow> amadeus_offer \<Rightarrow> nat \<Rightarrow> voo_in" where
  "offer_voo_in H table prefix offer index =
     (let its = (case itineraries offer of Some l \<Rightarrow> l | None \<Rightarrow> []);
          ida_it = (case its of i # _ \<Rightarrow> i | [] \<Rightarrow> empty_itinerary);
          volta_it = (case its of _ # v # _ \<Rightarrow> Some v | _ \<Rightarrow> None);
          primeiraCompanhia = text_or (case first_segment ida_it of Some g \<Rightarrow> carrierCode g | None \<Rightarrow> None) ''N/A''
      in \<lparr> in_id = text_or (offer_id offer) (prefix @ numberText H (real index)),
           in_preco = PrecoText (text_or (case price offer of Some p \<Rightarrow> price_total p | None \<Rightarrow> None) ''0''),
           in_moeda = text_or (case price offer of Some p \<Rightarrow> price_currency p | None \<Rightarrow> None) ''BRL'',
           in_companhia = lookup_or table primeiraCompanhia primeiraCompanhia,
           in_origem = text_or (departure_code (first_segment ida_it)) [],
           in_destino =
             (case volta_it of
                Some v \<Rightarrow> (case arrival_code (last_segment v) of Some s \<Rightarrow> s | None \<Rightarrow> [])
              | None \<Rightarrow> text_or (arrival_code (last_segment ida_it)) []),
           in_dataIda = text_or (departure_at (first_segment ida_it)) [],
           in_dataVolta = (case volta_it of Some v \<Rightarrow> departure_at (first_segment v) | None \<Rightarrow> None),
           in_duracaoIda = calculateDuration H ida_it,
           in_duracaoVolta = (case volta_it of Some v \<Rightarrow> Some (calculateDuration H v) | None \<Rightarrow> None),
           in_escalasIda = escalas_of ida_it,
           in_escalasVolta = (case volta_it of Some v \<Rightarrow> Some (escalas_of v) | None \<Rightarrow> None),
           in_detalhes =
             Some \<lparr> ida = Some (case segments ida_it of Some segs \<Rightarrow> map (segmento_of table) segs | None \<Rightarrow> []),
                    volta = (case volta_it of
                               Some v \<Rightarrow> (case segments v of Some segs \<Rightarrow> Some (map (segmento_of table) segs) | None \<Rightarrow> None)
                             | None \<Rightarrow> None) \<rparr>,
           in_linkReserva = ''AMADEUS'',
           in_originalOffer = None \<rparr>)"

definition amadeus_voo_in :: "host \<Rightarrow> amadeus_offer \<Rightarrow> nat \<Rightarrow> voo_in" where
  "amadeus_voo_in H offer index =
     (offer_voo_in H companhiaMap ''amadeus-'' offer index)
       \<lparr> in_originalOffer := Some (AmadeusOffer offer) \<rparr>"

text \<open>The date of the request as the adapters format it,
  \<open>dataVolta ? new Date(dataVolta).toISOString().split('T')[0] : null\<close> for the return: a
  text that is not a date raises the \<open>RangeError\<close> of \<open>toISOString\<close>.\<close>

definition RangeError :: js_error where
  "RangeError = Error ''Invalid time value''"

definition format_date :: "host \<Rightarrow> string \<Rightarrow> js_error + string" where
  "format_date H d = (case isoDate H d of Some s \<Rightarrow> Inr s | None \<Rightarrow> Inl RangeError)"

definition format_date_opt :: "host \<Rightarrow> string option \<Rightarrow> js_error + string option" where
  "format_date_opt H d =
     (case or_null d of
        None \<Rightarrow> Inr None
      | Some s \<Rightarrow> (case isoDate H s of Some f \<Rightarrow> Inr (Some f) | None \<Rightarrow> Inl RangeError))"

text \<open>\<open>xs.map((x, index) => f(x, index))\<close>\<close>

definition map_index :: "('a \<Rightarrow> nat \<Rightarrow> 'b) \<Rightarrow> 'a list \<Rightarrow> 'b list" where
  "map_index f xs = map (\<lambda>(i, x). f x i) (enumerate 0 xs)"

text \<open>
  The remote side of one call, as the code meets it: the
  token the module has cached, if it is still valid, and what the token exchange settles
  with (each of the two modules has a cache of its own), what a provider answers to a
  request (\<open>response.data?.data\<close> for the two REST providers and
  \<open>response.data?.data?.flightOffers\<close> for the pricing request, \<open>None\<close> when the body has no
  list), the SOAP client that \<open>createClientAsync\<close> builds, and the order in which the three
  search tasks settle.
\<close>

record travellink_params =
  tl_origem :: string
  tl_destino :: string
  tl_dataIda :: string
  tl_adultos :: nat
  tl_criancas :: nat
  tl_bebes :: nat
  tl_dataVolta :: "string option"

record soap_client =
  has_DisponibilidadeAsync :: bool
  has_Disponibilidade :: bool
  Disponibilidade :: "travellink_params \<Rightarrow> js_error + jsv"

record aviation_params =
  dep_iata :: string
  arr_iata :: string
  flight_date :: string

record aviation_flight =
  airline_name :: "string option"
  airline_iata :: "string option"
  departure_iata :: "string option"
  departure_scheduled :: "string option"
  arrival_iata :: "string option"
  arrival_scheduled :: "string option"
  flight_number :: "string option"

datatype settle_order = TAV | TVA | ATV | AVT | VTA | VAT

fun order_of :: "settle_order \<Rightarrow> provider list" where
  "order_of TAV = [TRAVELLINK, AMADEUS, AVIATIONSTACK]"
| "order_of TVA = [TRAVELLINK, AVIATIONSTACK, AMADEUS]"
| "order_of ATV = [AMADEUS, TRAVELLINK, AVIATIONSTACK]"
| "order_of AVT = [AMADEUS, AVIATIONSTACK, TRAVELLINK]"
| "order_of VTA = [AVIATIONSTACK, TRAVELLINK, AMADEUS]"
| "order_of VAT = [AVIATIONSTACK, AMADEUS, TRAVELLINK]"

record priced_price =
  pp_total :: "string option"
  pp_base :: "string option"
  pp_currency :: "string option"
  pp_grandTotal :: "string option"
  pp_fees :: "jsv list option"

record priced_offer =
  po_id :: "string option"
  po_price :: "priced_price option"
  lastTicketingDate :: "string option"
  numberOfBookableSeats :: "nat option"
  instantTicketingRequired :: "bool option"
  travelerPricings :: "jsv list option"

record remote =
  cached_token :: "string option"
  token_post :: "js_error + string"
  amadeus_get :: "string \<Rightarrow> amadeus_params \<Rightarrow> js_error + amadeus_offer list option"
  createClient :: "js_error + soap_client"
  aviationstack_get :: "aviation_params \<Rightarrow> js_error + aviation_flight list option"
  settles :: settle_order
  pricing_post :: "string \<Rightarrow> amadeus_offer \<Rightarrow> js_error + priced_offer list option"
  flights_cached_token :: "string option"

text \<open>\<open>getAmadeusToken\<close> of \<open>multiAPI.js\<close>: the cached token while it is valid, else the
  token exchange, whose error the \<open>catch\<close> logs and raises again.\<close>

definition getAmadeusToken :: "remote \<Rightarrow> js_error + string" where
  "getAmadeusToken W =
     (case cached_token W of
        Some token \<Rightarrow> Inr token
      | None \<Rightarrow> (case token_post W of Inl error \<Rightarrow> Inl error | Inr token \<Rightarrow> Inr token))"

text \<open>\<open>searchAmadeus\<close>: the body of its \<open>try\<close>, then the function, whose \<open>catch\<close> logs the
  error and returns the empty list.\<close>

definition searchAmadeus_try ::
  "host \<Rightarrow> remote \<Rightarrow> string \<Rightarrow> string \<Rightarrow> string \<Rightarrow> string option \<Rightarrow> js_error + voo list" where
  "searchAmadeus_try H W orig dest dIda dVolta =
     (case getAmadeusToken W of
        Inl e \<Rightarrow> Inl e
      | Inr token \<Rightarrow>
          (let origemCode = getCityCode orig; destinoCode = getCityCode dest in
           case format_date H dIda of
             Inl e \<Rightarrow> Inl e
           | Inr dataIdaFormatted \<Rightarrow>
               (case format_date_opt H dVolta of
                  Inl e \<Rightarrow> Inl e
                | Inr dataVoltaFormatted \<Rightarrow>
                    (let params = \<lparr> originLocationCode = origemCode,
                                     destinationLocationCode = destinoCode,
                                     departureDate = dataIdaFormatted,
                                     adults = 1, max_offers = 15,
                                     returnDate = or_null dataVoltaFormatted \<rparr> in
                     case amadeus_get W token params of
                       Inl e \<Rightarrow> Inl e
                     | Inr None \<Rightarrow> Inr []
                     | Inr (Some offers) \<Rightarrow>
                         (if length offers = 0 then Inr []
                          else Inr (map_index
                                 (\<lambda>offer index.
                                    normalizeFlight H (draw H index 0)
                                      (amadeus_voo_in H offer index) ''AMADEUS'')
                                 offers))))))"

definition searchAmadeus ::
  "host \<Rightarrow> config \<Rightarrow> remote \<Rightarrow> string \<Rightarrow> string \<Rightarrow> string \<Rightarrow> string option \<Rightarrow> js_error + voo list" where
  "searchAmadeus H cfg W orig dest dIda dVolta =
     (if \<not> amadeus_enabled cfg then Inr []
      else (case searchAmadeus_try H W orig dest dIda dVolta of
              Inl error \<Rightarrow> Inr []
            | Inr voos \<Rightarrow> Inr voos))"

subsection \<open>The secondary REST provider\<close>

text \<open>The object that \<open>searchAviationStack\<close> builds for the flight at \<open>index\<close>.\<close>

definition aviation_voo_in :: "host \<Rightarrow> string \<Rightarrow> string \<Rightarrow> aviation_flight \<Rightarrow> nat \<Rightarrow> voo_in" where
  "aviation_voo_in H origemCode destinoCode flight index =
     \<lparr> in_id = ''aviationstack-'' @ numberText H (real index),
       in_preco = PrecoText ''0'',
       in_moeda = ''BRL'',
       in_companhia = text_or (airline_name flight) (text_or (airline_iata flight) ''N/A''),
       in_origem = text_or (departure_iata flight) origemCode,
       in_destino = text_or (arrival_iata flight) destinoCode,
       in_dataIda = text_or (departure_scheduled flight) [],
       in_dataVolta = None,
       in_duracaoIda = ''N/A'',
       in_duracaoVolta = None,
       in_escalasIda = 0,
       in_escalasVolta = None,
       in_detalhes =
         Some \<lparr> ida = Some [\<lparr> seg_origem = departure_iata flight,
                               seg_destino = arrival_iata flight,
                               partida = departure_scheduled flight,
                               chegada = arrival_scheduled flight,
                               duracao = Some ''N/A'',
                               seg_companhia = airline_name flight,
                               numeroVoo = flight_number flight \<rparr>],
                volta = None \<rparr>,
       in_linkReserva = ''AVIATIONSTACK'',
       in_originalOffer = None \<rparr>"

definition searchAviationStack_try ::
  "host \<Rightarrow> remote \<Rightarrow> string \<Rightarrow> string \<Rightarrow> string \<Rightarrow> string option \<Rightarrow> js_error + voo list" where
  "searchAviationStack_try H W orig dest dIda dVolta =
     (let origemCode = getCityCode orig; destinoCode = getCityCode dest in
      case format_date H dIda of
        Inl e \<Rightarrow> Inl e
      | Inr dataIdaFormatted \<Rightarrow>
          (case aviationstack_get W
                  \<lparr> dep_iata = origemCode, arr_iata = destinoCode, flight_date = dataIdaFormatted \<rparr> of
             Inl e \<Rightarrow> Inl e
           | Inr None \<Rightarrow> Inr []
           | Inr (Some flights) \<Rightarrow>
               (if length flights = 0 then Inr []
                else Inr (map_index
                       (\<lambda>flight index.
                          normalizeFlight H (draw H index 0)
                            (aviation_voo_in H origemCode destinoCode flight index) ''AVIATIONSTACK'')
                       (take 10 flights)))))"

definition searchAviationStack ::
  "host \<Rightarrow> config \<Rightarrow> remote \<Rightarrow> string \<Rightarrow> string \<Rightarrow> string \<Rightarrow> string option \<Rightarrow> js_error + voo list" where
  "searchAviationStack H cfg W orig dest dIda dVolta =
     (if \<not> aviationstack_enabled cfg then Inr []
      else (case searchAviationStack_try H W orig dest dIda dVolta of
              Inl error \<Rightarrow> Inr []
            | Inr voos \<Rightarrow> Inr voos))"

subsection \<open>The SOAP legacy provider\<close>

text \<open>
  The response of the SOAP operation has no fixed shape, so it is a \<open>jsv\<close> and the code's
  tests on it are the JavaScript ones: truthiness, \<open>Array.isArray\<close>, \<open>typeof\<close>, reading a
  member (none of the names the code reads is a member that arrays, strings or plain
  objects inherit, so the read is a look-up among the own fields, \<open>undefined\<close> on anything
  that is not an object literal), and the text of a value where the code puts it into a
  template string or uses it as a key. The offer records hold texts, so a value that
  goes into a text field is stored as its text.
\<close>

fun truthy :: "jsv \<Rightarrow> bool" where
  "truthy JUndef = False"
| "truthy JNull = False"
| "truthy (JBool b) = b"
| "truthy (JNum r) = (r \<noteq> 0)"
| "truthy JNaN = False"
| "truthy (JStr s) = (s \<noteq> [])"
| "truthy (JArr xs) = True"
| "truthy (JObj kvs) = True"

fun nullish :: "jsv \<Rightarrow> bool" where
  "nullish JUndef = True"
| "nullish JNull = True"
| "nullish v = False"

fun isArray :: "jsv \<Rightarrow> bool" where
  "isArray (JArr xs) = True"
| "isArray v = False"

text \<open>\<open>typeof v === 'object'\<close>\<close>

fun is_object :: "jsv \<Rightarrow> bool" where
  "is_object (JArr xs) = True"
| "is_object (JObj kvs) = True"
| "is_object JNull = True"
| "is_object v = False"

definition get_prop :: "jsv \<Rightarrow> string \<Rightarrow> jsv" where
  "get_prop v k =
     (case v of
        JObj kvs \<Rightarrow> (case map_of kvs k of Some x \<Rightarrow> x | None \<Rightarrow> JUndef)
      | _ \<Rightarrow> JUndef)"

text \<open>\<open>a || b || ... || d\<close>\<close>

fun first_truthy :: "jsv list \<Rightarrow> jsv \<Rightarrow> jsv" where
  "first_truthy [] d = d"
| "first_truthy (x # xs) d = (if truthy x then x else first_truthy xs d)"

definition props_or :: "jsv \<Rightarrow> string list \<Rightarrow> jsv \<Rightarrow> jsv" where
  "props_or v keys d = first_truthy (map (get_prop v) keys) d"

fun join_comma :: "string list \<Rightarrow> string" where
  "join_comma [] = []"
| "join_comma [x] = x"
| "join_comma (x # y # ys) = x @ '','' @ join_comma (y # ys)"

fun text_of :: "host \<Rightarrow> jsv \<Rightarrow> string" where
  "text_of H JUndef = ''undefined''"
| "text_of H JNull = ''null''"
| "text_of H (JBool b) = (if b then ''true'' else ''false'')"
| "text_of H (JNum r) = numberText H r"
| "text_of H JNaN = ''NaN''"
| "text_of H (JStr s) = s"
| "text_of H (JArr xs) = join_comma (map (\<lambda>x. if nullish x then [] else text_of H x) xs)"
| "text_of H (JObj kvs) = ''[object Object]''"

text \<open>\<open>parseFloat(v)\<close> and \<open>parseInt(v)\<close> read the text of \<open>v\<close>; the text of \<open>undefined\<close>,
  \<open>null\<close>, a boolean, \<open>NaN\<close> or an object literal has no number in front.\<close>

definition parseFloat_js :: "host \<Rightarrow> jsv \<Rightarrow> real option" where
  "parseFloat_js H v =
     (case v of
        JNum r \<Rightarrow> Some r
      | JStr s \<Rightarrow> (if s = [] then None else parseFloat H s)
      | JArr xs \<Rightarrow> (if text_of H v = [] then None else parseFloat H (text_of H v))
      | _ \<Rightarrow> None)"

definition parseInt_js :: "host \<Rightarrow> jsv \<Rightarrow> int option" where
  "parseInt_js H v =
     (case v of
        JNum r \<Rightarrow> parseInt H (numberText H r)
      | JStr s \<Rightarrow> (if s = [] then None else parseInt H s)
      | JArr xs \<Rightarrow> (if text_of H v = [] then None else parseInt H (text_of H v))
      | _ \<Rightarrow> None)"

text \<open>\<open>formatarVooTravelLink\<close>\<close>

definition formatarVooTravelLink :: "host \<Rightarrow> jsv \<Rightarrow> string \<Rightarrow> string \<Rightarrow> nat \<Rightarrow> voo" where
  "formatarVooTravelLink H v origemCode destinoCode index =
     (let companhia0 = props_or v [''Companhia'', ''companhia'', ''Airline'', ''airline''] (JStr ''N/A'');
          preco0 = props_or v [''Preco'', ''preco'', ''Price'', ''price'', ''Valor'', ''valor''] (JStr ''0'');
          moeda0 = props_or v [''Moeda'', ''moeda'', ''Currency'', ''currency''] (JStr ''BRL'');
          dataPartida = props_or v [''DataPartida'', ''dataPartida'', ''DepartureDate'', ''departureDate''] (JStr []);
          horaPartida = props_or v [''HoraPartida'', ''horaPartida'', ''DepartureTime'', ''departureTime''] (JStr []);
          horaChegada = props_or v [''HoraChegada'', ''horaChegada'', ''ArrivalTime'', ''arrivalTime''] (JStr []);
          duracao0 = props_or v [''Duracao'', ''duracao'', ''Duration'', ''duration''] (JStr ''N/A'');
          escalas = props_or v [''Escalas'', ''escalas'', ''Stops'', ''stops''] (JNum 0);
          numeroVoo0 = props_or v [''NumeroVoo'', ''numeroVoo'', ''FlightNumber'', ''flightNumber''] (JStr []);
          companhiaNome = lookup_or companhiaMap (text_of H companhia0) (text_of H companhia0);
          origem0 = text_of H (props_or v [''Origem'', ''origem''] (JStr origemCode));
          destino0 = text_of H (props_or v [''Destino'', ''destino''] (JStr destinoCode))
      in normalizeFlight H (draw H index 0)
           \<lparr> in_id = text_of H (props_or v [''Id'', ''id'']
                        (JStr (''travellink-'' @ numberText H (real index) @ ''-'' @
                               numberText H (real (now H))))),
             in_preco = PrecoNum (or_num (parseFloat_js H preco0) 0),
             in_moeda = text_of H moeda0,
             in_companhia = companhiaNome,
             in_origem = origem0,
             in_destino = destino0,
             in_dataIda =
               (if truthy dataPartida
                then text_of H dataPartida @ ''T'' @ text_of H horaPartida @ '':00''
                else nowISO H),
             in_dataVolta = None,
             in_duracaoIda = text_of H (first_truthy [duracao0] (JStr ''N/A'')),
             in_duracaoVolta = None,
             in_escalasIda =
               (case parseInt_js H escalas of Some n \<Rightarrow> (if n \<noteq> 0 then n else 0) | None \<Rightarrow> 0),
             in_escalasVolta = None,
             in_detalhes =
               Some \<lparr> ida = Some [\<lparr> seg_origem = Some origem0,
                                     seg_destino = Some destino0,
                                     partida = Some (if truthy dataPartida
                                                     then text_of H dataPartida @ ''T'' @ text_of H horaPartida @ '':00''
                                                     else []),
                                     chegada = Some (if truthy horaChegada
                                                     then text_of H dataPartida @ ''T'' @ text_of H horaChegada @ '':00''
                                                     else []),
                                     duracao = Some (text_of H duracao0),
                                     seg_companhia = Some companhiaNome,
                                     numeroVoo = Some (text_of H numeroVoo0) \<rparr>],
                      volta = None \<rparr>,
             in_linkReserva = ''TRAVELLINK'',
             in_originalOffer = Some (TravelLinkVoo v) \<rparr>
           ''TRAVELLINK'')"

text \<open>The two \<open>forEach\<close> loops of \<open>processarResultadosTravelLink\<close>: every element that is an
  object becomes an offer, under its index in the array.\<close>

definition formatar_todos :: "host \<Rightarrow> jsv list \<Rightarrow> string \<Rightarrow> string \<Rightarrow> voo list" where
  "formatar_todos H xs origemCode destinoCode =
     concat (map_index
       (\<lambda>v index. if truthy v \<and> is_object v
                   then [formatarVooTravelLink H v origemCode destinoCode index] else [])
       xs)"

definition TypeError :: js_error where
  "TypeError = Error ''Cannot read properties of undefined''"

text \<open>The wrapper keys, in the order the code tries them, and the keys of an inner list.\<close>

definition wrapper_keys :: "string list" where
  "wrapper_keys = [''DisponibilidadeResult'', ''disponibilidadeResult'', ''return'', ''data'',
                   ''Voos'', ''voos'', ''Flights'', ''flights'']"

definition lista_keys :: "string list" where
  "lista_keys = [''Voos'', ''voos'', ''flights'', ''resultado'', ''ListaVoos'', ''listaVoos'']"

text \<open>\<open>processarResultadosTravelLink\<close>: the body of its \<open>try\<close> (reading a member of \<open>null\<close>
  or \<open>undefined\<close> raises), then the function, whose \<open>catch\<close> logs and falls through to
  \<open>return voos\<close>. Nothing has been pushed when the only raise of the body happens.\<close>

definition processarResultadosTravelLink_try ::
  "host \<Rightarrow> jsv \<Rightarrow> string \<Rightarrow> string \<Rightarrow> js_error + voo list" where
  "processarResultadosTravelLink_try H resultado origemCode destinoCode =
     (if nullish resultado then Inl TypeError
      else
        (let dados = props_or resultado wrapper_keys resultado in
         if \<not> truthy dados \<or> (isArray dados \<and> (case dados of JArr xs \<Rightarrow> length xs = 0 | _ \<Rightarrow> False))
         then Inr []
         else
           (case dados of
              JArr xs \<Rightarrow> Inr (formatar_todos H xs origemCode destinoCode)
            | JObj kvs \<Rightarrow>
                (let listaVoos = props_or dados lista_keys JUndef in
                 case listaVoos of
                   JArr ys \<Rightarrow>
                     (if 0 < length ys then Inr (formatar_todos H ys origemCode destinoCode)
                      else if 0 < length kvs
                      then Inr [formatarVooTravelLink H dados origemCode destinoCode 0]
                      else Inr [])
                 | _ \<Rightarrow>
                     (if 0 < length kvs
                      then Inr [formatarVooTravelLink H dados origemCode destinoCode 0]
                      else Inr []))
            | _ \<Rightarrow> Inr [])))"

definition processarResultadosTravelLink :: "host \<Rightarrow> jsv \<Rightarrow> string \<Rightarrow> string \<Rightarrow> voo list" where
  "processarResultadosTravelLink H resultado origemCode destinoCode =
     (case processarResultadosTravelLink_try H resultado origemCode destinoCode of
        Inl error \<Rightarrow> []
      | Inr voos \<Rightarrow> voos)"

text \<open>\<open>s.includes(t)\<close>\<close>

fun includes_text :: "string \<Rightarrow> string \<Rightarrow> bool" where
  "includes_text [] t = (t = [])"
| "includes_text (c # cs) t = (take (length t) (c # cs) = t \<or> includes_text cs t)"

text \<open>
  \<open>searchTravelLink\<close>. The inner \<open>try\<close> calls the operation; its \<open>catch\<close> returns the empty
  list for an error about a callback and raises a new error for any other. The outer
  \<open>catch\<close> logs whatever was raised inside the outer \<open>try\<close> and returns the empty list.
\<close>

definition searchTravelLink_try ::
  "host \<Rightarrow> remote \<Rightarrow> string \<Rightarrow> string \<Rightarrow> string \<Rightarrow> string option \<Rightarrow> js_error + voo list" where
  "searchTravelLink_try H W orig dest dIda dVolta =
     (let origemCode = getCityCode orig; destinoCode = getCityCode dest in
      case format_date H dIda of
        Inl e \<Rightarrow> Inl e
      | Inr dataIdaFormatted \<Rightarrow>
          (case format_date_opt H dVolta of
             Inl e \<Rightarrow> Inl e
           | Inr dataVoltaFormatted \<Rightarrow>
               (case createClient W of
                  Inl e \<Rightarrow> Inl e
                | Inr client \<Rightarrow>
                    (if \<not> has_DisponibilidadeAsync client \<and> \<not> has_Disponibilidade client
                     then Inl (Error (''M'' @ [CHR 0xE9] @ ''todo Disponibilidade n'' @ [CHR 0xE3] @
                                      ''o encontrado na API TravelLink''))
                     else
                       (let params = \<lparr> tl_origem = origemCode, tl_destino = destinoCode,
                                        tl_dataIda = dataIdaFormatted,
                                        tl_adultos = 1, tl_criancas = 0, tl_bebes = 0,
                                        tl_dataVolta = or_null dataVoltaFormatted \<rparr> in
                        case Disponibilidade client params of
                          Inl err \<Rightarrow>
                            (if message err \<noteq> [] \<and> includes_text (message err) ''callback''
                             then Inr []
                             else Inl (Error (''Erro ao buscar disponibilidade: '' @ message err)))
                        | Inr resultado \<Rightarrow>
                            (if nullish resultado then Inr []
                             else if isArray resultado \<and>
                                     (case resultado of JArr xs \<Rightarrow> length xs = 0 | _ \<Rightarrow> False)
                             then Inr []
                             else Inr (processarResultadosTravelLink H resultado
                                         origemCode destinoCode)))))))"

definition searchTravelLink ::
  "host \<Rightarrow> config \<Rightarrow> remote \<Rightarrow> string \<Rightarrow> string \<Rightarrow> string \<Rightarrow> string option \<Rightarrow> js_error + voo list" where
  "searchTravelLink H cfg W orig dest dIda dVolta =
     (if \<not> travellink_enabled cfg then Inr []
      else (case searchTravelLink_try H W orig dest dIda dVolta of
              Inl error \<Rightarrow> Inr []
            | Inr voos \<Rightarrow> Inr voos))"

section \<open>AggregationOrchestrator\<close>

record fontes =
  travellink :: nat
  amadeus :: nat
  aviationstack :: nat

record erro =
  erro_source :: string
  erro_error :: string

record estatisticas =
  total :: nat
  fontes :: fontes
  erros :: "erro list"

record resultado =
  voos :: "voo list"
  estatisticas :: estatisticas

definition enabled :: "config \<Rightarrow> provider \<Rightarrow> bool" where
  "enabled cfg p =
     (case p of
        TRAVELLINK \<Rightarrow> travellink_enabled cfg
      | AMADEUS \<Rightarrow> amadeus_enabled cfg
      | AVIATIONSTACK \<Rightarrow> aviationstack_enabled cfg)"

text \<open>The search task of a provider: the promise its adapter returns.\<close>

definition search_task ::
  "host \<Rightarrow> config \<Rightarrow> remote \<Rightarrow> string \<Rightarrow> string \<Rightarrow> string \<Rightarrow> string option \<Rightarrow> provider \<Rightarrow> js_error + voo list" where
  "search_task H cfg W orig dest dIda dVolta p =
     (case p of
        TRAVELLINK \<Rightarrow> searchTravelLink H cfg W orig dest dIda dVolta
      | AMADEUS \<Rightarrow> searchAmadeus H cfg W orig dest dIda dVolta
      | AVIATIONSTACK \<Rightarrow> searchAviationStack H cfg W orig dest dIda dVolta)"

text \<open>What the callbacks \<open>.then(...)\<close> and \<open>.catch(...)\<close> of a task do to \<open>results\<close> and
  \<open>errors\<close> when the task settles.\<close>

definition settle_task ::
  "provider \<Rightarrow> js_error + voo list \<Rightarrow> voo list \<times> erro list \<Rightarrow> voo list \<times> erro list" where
  "settle_task p outcome st =
     (case outcome of
        Inr flights \<Rightarrow> (fst st @ flights, snd st)
      | Inl err \<Rightarrow> (fst st, snd st @ [\<lparr> erro_source = tag p, erro_error = message err \<rparr>]))"

text \<open>
  \<open>searchFlightsMultiAPI\<close>. A task is started for every enabled provider; the tasks run
  side by side, and their callbacks run in the order in which the tasks settle, which
  the remote side fixes. After \<open>Promise.allSettled\<close> the results are deduplicated, sorted
  and counted.
\<close>

definition searchFlightsMultiAPI ::
  "host \<Rightarrow> config \<Rightarrow> remote \<Rightarrow> string \<Rightarrow> string \<Rightarrow> string \<Rightarrow> string option \<Rightarrow> js_error + resultado" where
  "searchFlightsMultiAPI H cfg W orig dest dIda dVolta =
     (let started = filter (enabled cfg) (order_of (settles W));
          settled = fold (\<lambda>p. settle_task p (search_task H cfg W orig dest dIda dVolta p))
                      started ([], []);
          results = fst settled;
          errors = snd settled;
          uniqueFlights = js_sort compareFlights (deduplicateFlights results)
      in Inr \<lparr> voos = uniqueFlights,
               estatisticas =
                 \<lparr> total = length uniqueFlights,
                   fontes = \<lparr> travellink = length (filter (\<lambda>f. fonte f = ''TRAVELLINK'') uniqueFlights),
                              amadeus = length (filter (\<lambda>f. fonte f = ''AMADEUS'') uniqueFlights),
                              aviationstack = length (filter (\<lambda>f. fonte f = ''AVIATIONSTACK'') uniqueFlights) \<rparr>,
                   erros = errors \<rparr> \<rparr>)"

section \<open>The flight service\<close>

text \<open>
  The module \<open>unnamed/part_000\<close>: the public \<open>searchFlights\<close>, its own copy of the token
  exchange and of the OAuth REST search, and the generator of synthetic offers. An offer it
  returns is either a normalized offer of the multi-provider search or an object of the
  same shape as the adapters build, without the stamps of the normalizer.
\<close>

datatype offer = Normalized voo | Plain voo_in

text \<open>\<open>offer.fonte\<close> and \<open>offer.linkReserva\<close>: the objects that did not go through
  \<open>normalizeFlight\<close> have no \<open>fonte\<close>.\<close>

definition offer_fonte :: "offer \<Rightarrow> string option" where
  "offer_fonte x = (case x of Normalized f \<Rightarrow> Some (fonte f) | Plain g \<Rightarrow> None)"

definition offer_linkReserva :: "offer \<Rightarrow> string" where
  "offer_linkReserva x = (case x of Normalized f \<Rightarrow> linkReserva f | Plain g \<Rightarrow> in_linkReserva g)"

text \<open>The carrier table of \<open>formatAmadeusResults\<close>.\<close>

definition companhiaMap_flights :: "(string \<times> string) list" where
  "companhiaMap_flights =
    [(''LA'', ''LATAM''), (''G3'', ''GOL''), (''AD'', ''Azul''), (''JJ'', ''LATAM''),
     (''TP'', ''TAP''), (''AF'', ''Air France''), (''KL'', ''KLM''), (''LH'', ''Lufthansa''),
     (''EK'', ''Emirates''), (''QR'', ''Qatar Airways''), (''AA'', ''American Airlines''),
     (''DL'', ''Delta''), (''UA'', ''United'')]"

definition flights_voo_in :: "host \<Rightarrow> amadeus_offer \<Rightarrow> nat \<Rightarrow> voo_in" where
  "flights_voo_in H offer index =
     (offer_voo_in H companhiaMap_flights ''flight-'' offer index)
       \<lparr> in_linkReserva := text_or (offer_source offer) ''AMADEUS'' \<rparr>"

text \<open>\<open>error.code\<close> is one of the given codes.\<close>

definition code_in :: "js_error \<Rightarrow> string list \<Rightarrow> bool" where
  "code_in error cs = (case code error of Some c \<Rightarrow> c \<in> set cs | None \<Rightarrow> False)"

text \<open>The \<open>catch\<close> of the service's \<open>getAmadeusToken\<close>: the error it raises instead.\<close>

definition token_error :: "js_error \<Rightarrow> js_error" where
  "token_error error =
     (if status error = Some 401
      then Error (''Credenciais inv'' @ [CHR 0xE1] @ ''lidas. Verifique AMADEUS_API_KEY e AMADEUS_API_SECRET no arquivo .env'')
      else if code_in error [''ENOTFOUND'', ''ECONNREFUSED'']
      then Error (''N'' @ [CHR 0xE3] @ ''o foi poss'' @ [CHR 0xED] @ ''vel conectar '' @ [CHR 0xE0] @ '' API do Amadeus. Verifique sua conex'' @ [CHR 0xE3] @ ''o com a internet.'')
      else if code_in error [''ETIMEDOUT''] \<or> includes_text (message error) ''timeout''
      then Error (''Tempo de espera esgotado ao conectar com a API do Amadeus.'')
      else Error (''Erro ao autenticar com Amadeus API: '' @ message error))"

text \<open>The service's \<open>getAmadeusToken\<close>. Its credentials are the two environment variables
  that \<open>API_CONFIG.amadeus.enabled\<close> tests, so they are there exactly when the provider is
  enabled.\<close>

definition getAmadeusToken_flights :: "config \<Rightarrow> remote \<Rightarrow> js_error + string" where
  "getAmadeusToken_flights cfg W =
     (case flights_cached_token W of
        Some token \<Rightarrow> Inr token
      | None \<Rightarrow>
          (case (if \<not> amadeus_enabled cfg
                 then Inl (Error (''Credenciais da API Amadeus n'' @ [CHR 0xE3] @ ''o configuradas. Verifique AMADEUS_API_KEY e AMADEUS_API_SECRET no arquivo .env''))
                 else token_post W) of
             Inl error \<Rightarrow> Inl (token_error error)
           | Inr token \<Rightarrow> Inr token))"

text \<open>The \<open>catch\<close> of \<open>searchFlightsAmadeus\<close>.\<close>

definition search_error :: "js_error \<Rightarrow> js_error" where
  "search_error error =
     (if status error = Some 401
      then Error (''Token de autentica'' @ [CHR 0xE7] @ [CHR 0xE3] @ ''o inv'' @ [CHR 0xE1] @ ''lido ou expirado. Tente novamente.'')
      else if status error = Some 400
      then Error (''Par'' @ [CHR 0xE2] @ ''metros inv'' @ [CHR 0xE1] @ ''lidos: '' @ text_or (detail error) (''Par'' @ [CHR 0xE2] @ ''metros inv'' @ [CHR 0xE1] @ ''lidos'') @
                  ''. Verifique origem, destino e datas.'')
      else if status error = Some 429
      then Error (''Limite de requisi'' @ [CHR 0xE7] @ [CHR 0xF5] @ ''es excedido. Tente novamente mais tarde.'')
      else if status error = Some 404
      then Error (''Nenhum voo encontrado para os crit'' @ [CHR 0xE9] @ ''rios informados.'')
      else if code_in error [''ENOTFOUND'', ''ECONNREFUSED'']
      then Error (''N'' @ [CHR 0xE3] @ ''o foi poss'' @ [CHR 0xED] @ ''vel conectar '' @ [CHR 0xE0] @ '' API do Amadeus. Verifique sua conex'' @ [CHR 0xE3] @ ''o.'')
      else if code_in error [''ETIMEDOUT''] \<or> includes_text (message error) ''timeout''
      then Error ''Tempo de espera esgotado ao buscar voos.''
      else Error (''Erro ao buscar voos: '' @ text_or (detail error) (message error)))"

definition searchFlightsAmadeus_try ::
  "host \<Rightarrow> config \<Rightarrow> remote \<Rightarrow> string \<Rightarrow> string \<Rightarrow> string \<Rightarrow> string option \<Rightarrow> js_error + voo_in list" where
  "searchFlightsAmadeus_try H cfg W orig dest dIda dVolta =
     (case getAmadeusToken_flights cfg W of
        Inl e \<Rightarrow> Inl e
      | Inr token \<Rightarrow>
          (let origemCode = getCityCode_flights orig; destinoCode = getCityCode_flights dest in
           case format_date H dIda of
             Inl e \<Rightarrow> Inl e
           | Inr dataIdaFormatted \<Rightarrow>
               (case format_date_opt H dVolta of
                  Inl e \<Rightarrow> Inl e
                | Inr dataVoltaFormatted \<Rightarrow>
                    (let params = \<lparr> originLocationCode = origemCode,
                                     destinationLocationCode = destinoCode,
                                     departureDate = dataIdaFormatted,
                                     adults = 1, max_offers = 15,
                                     returnDate = or_null dataVoltaFormatted \<rparr> in
                     case amadeus_get W token params of
                       Inl e \<Rightarrow> Inl e
                     | Inr None \<Rightarrow> Inr []
                     | Inr (Some offers) \<Rightarrow>
                         (if length offers = 0 then Inr []
                          else Inr (map_index (flights_voo_in H) offers))))))"

definition searchFlightsAmadeus ::
  "host \<Rightarrow> config \<Rightarrow> remote \<Rightarrow> string \<Rightarrow> string \<Rightarrow> string \<Rightarrow> string option \<Rightarrow> js_error + voo_in list" where
  "searchFlightsAmadeus H cfg W orig dest dIda dVolta =
     (case searchFlightsAmadeus_try H cfg W orig dest dIda dVolta of
        Inl error \<Rightarrow> Inl (search_error error)
      | Inr resultados \<Rightarrow> Inr resultados)"

subsection \<open>MockGenerator\<close>

definition companhias :: "string list" where
  "companhias = [''LATAM'', ''GOL'', ''Azul'', ''TAM'', ''Emirates'', ''Air France'', ''KLM'',
                 ''Lufthansa'', ''TAP'', ''Qatar Airways'', ''American Airlines'', ''Delta'',
                 ''United'', ''British Airways'', ''Iberia'']"

text \<open>\<open>Math.floor(Math.random() * n)\<close>, from the \<open>k\<close>-th draw for the offer \<open>i\<close>.\<close>

definition draw_below :: "host \<Rightarrow> nat \<Rightarrow> nat \<Rightarrow> nat \<Rightarrow> nat" where
  "draw_below H i k n = nat \<lfloor>draw H i k * real n\<rfloor>"

text \<open>
  The object that one turn of the loop of \<open>generateMockFlights\<close> pushes; \<open>t0\<close> is the time
  value of \<open>new Date(dataIda)\<close> and \<open>tVolta\<close> that of \<open>new Date(dataVolta)\<close> when there is a
  return date. Both are valid dates here: the function below raises before it builds
  anything when one is not.
\<close>

definition mock_flight :: "host \<Rightarrow> string \<Rightarrow> string \<Rightarrow> int \<Rightarrow> int option \<Rightarrow> nat \<Rightarrow> voo_in" where
  "mock_flight H orig dest t0 tVolta i =
     (let companhia0 = companhias ! draw_below H i 0 15;
          precoBase = 800 + draw H i 1 * 2000;
          escalas = (if 0.6 < draw H i 2 then 0 else 1);
          horaPartida = 6 + draw_below H i 3 14;
          minutoPartida = draw_below H i 4 60;
          t1 = setHours H t0 horaPartida minutoPartida;
          t2 = setHours H t1 horaPartida minutoPartida;
          hm = (\<lambda>k sep1 sep2.
                  numberText H (real (draw_below H i k 8 + 2)) @ sep1 @
                  numberText H (real (draw_below H i (k + 1) 60)) @ sep2);
          later = (\<lambda>t k. \<lfloor>real_of_int t + (2 + draw H i k * 6) * 3600000\<rfloor>);
          origem3 = toUpperCase (substring0 orig 3);
          destino3 = toUpperCase (substring0 dest 3)
      in \<lparr> in_id = ''mock-flight-'' @ numberText H (real i),
           in_preco = PrecoText (toFixed2 H precoBase),
           in_moeda = ''BRL'',
           in_companhia = companhia0,
           in_origem = origem3,
           in_destino = destino3,
           in_dataIda = toISOString H t1,
           in_dataVolta = (case tVolta of Some tv \<Rightarrow> Some (toISOString H tv) | None \<Rightarrow> None),
           in_duracaoIda = hm 5 ''h '' ''m'',
           in_duracaoVolta = (case tVolta of Some tv \<Rightarrow> Some (hm 7 ''h '' ''m'') | None \<Rightarrow> None),
           in_escalasIda = escalas,
           in_escalasVolta = (case tVolta of Some tv \<Rightarrow> Some escalas | None \<Rightarrow> None),
           in_detalhes =
             Some \<lparr> ida = Some [\<lparr> seg_origem = Some origem3,
                                   seg_destino = Some destino3,
                                   partida = Some (toISOString H t2),
                                   chegada = Some (toISOString H (later t2 9)),
                                   duracao = Some (hm 10 ''H'' ''M''),
                                   seg_companhia = Some (toUpperCase (substring0 companhia0 2)),
                                   numeroVoo = Some (substring0 companhia0 2 @
                                                     numberText H (real (draw_below H i 12 9000 + 1000))) \<rparr>],
                    volta =
                      (case tVolta of
                         Some tv \<Rightarrow>
                           Some [\<lparr> seg_origem = Some destino3,
                                   seg_destino = Some origem3,
                                   partida = Some (toISOString H tv),
                                   chegada = Some (toISOString H (later tv 13)),
                                   duracao = Some (hm 14 ''H'' ''M''),
                                   seg_companhia = Some (toUpperCase (substring0 companhia0 2)),
                                   numeroVoo = Some (substring0 companhia0 2 @
                                                     numberText H (real (draw_below H i 16 9000 + 1000))) \<rparr>]
                       | None \<Rightarrow> None) \<rparr>,
           in_linkReserva = ''MOCK'',
           in_originalOffer = None \<rparr>)"

text \<open>The comparator of the final sort, \<open>parseFloat(a.preco) - parseFloat(b.preco)\<close>; a
  \<open>NaN\<close> counts as zero.\<close>

definition compareMock :: "host \<Rightarrow> voo_in \<Rightarrow> voo_in \<Rightarrow> real" where
  "compareMock H a b =
     (case parseFloat_of H (in_preco a) of
        None \<Rightarrow> 0
      | Some x \<Rightarrow> (case parseFloat_of H (in_preco b) of None \<Rightarrow> 0 | Some y \<Rightarrow> x - y))"

text \<open>\<open>new Date(s)\<close> where the code calls \<open>toISOString\<close> on it next.\<close>

definition date_value :: "host \<Rightarrow> string \<Rightarrow> js_error + int" where
  "date_value H s = (case dateOf H s of Some t \<Rightarrow> Inr t | None \<Rightarrow> Inl RangeError)"

definition generateMockFlights ::
  "host \<Rightarrow> string \<Rightarrow> string \<Rightarrow> string \<Rightarrow> string option \<Rightarrow> js_error + voo_in list" where
  "generateMockFlights H orig dest dIda dVolta =
     (case date_value H dIda of
        Inl e \<Rightarrow> Inl e
      | Inr t0 \<Rightarrow>
          (case (case or_null dVolta of
                   None \<Rightarrow> Inr None
                 | Some s \<Rightarrow> (case date_value H s of Inl e \<Rightarrow> Inl e | Inr tv \<Rightarrow> Inr (Some tv))) of
             Inl e \<Rightarrow> Inl e
           | Inr tVolta \<Rightarrow>
               Inr (js_sort (compareMock H) (map (mock_flight H orig dest t0 tVolta) [0..<15]))))"

subsection \<open>The public search\<close>

text \<open>\<open>USE_MOCK_DATA\<close> compares the boolean \<open>USE_MOCK_FLIGHTS\<close> with the string \<open>'true'\<close> by
  \<open>===\<close>, so it is false whatever the environment says.\<close>

definition USE_MOCK_DATA :: "config \<Rightarrow> bool" where
  "USE_MOCK_DATA cfg = False"

definition useMultiAPI :: "config \<Rightarrow> bool" where
  "useMultiAPI cfg = (travellink_enabled cfg \<or> amadeus_enabled cfg \<or> aviationstack_enabled cfg)"

definition mock_offers ::
  "host \<Rightarrow> string \<Rightarrow> string \<Rightarrow> string \<Rightarrow> string option \<Rightarrow> js_error + offer list" where
  "mock_offers H orig dest dIda dVolta =
     (case generateMockFlights H orig dest dIda dVolta of
        Inl e \<Rightarrow> Inl e
      | Inr flights \<Rightarrow> Inr (map Plain flights))"

text \<open>The body of the \<open>try\<close> around the multi-provider search, and the \<open>catch\<close> that
  follows it.\<close>

definition searchFlights_multi_try ::
  "host \<Rightarrow> config \<Rightarrow> remote \<Rightarrow> string \<Rightarrow> string \<Rightarrow> string \<Rightarrow> string option \<Rightarrow> js_error + offer list" where
  "searchFlights_multi_try H cfg W orig dest dIda dVolta =
     (case searchFlightsMultiAPI H cfg W orig dest dIda dVolta of
        Inl e \<Rightarrow> Inl e
      | Inr res \<Rightarrow>
          (if length (voos res) = 0
           then (if USE_MOCK_FLIGHTS cfg then mock_offers H orig dest dIda dVolta
                 else Inr [])
           else Inr (map Normalized (voos res))))"

definition searchFlights_multi_catch ::
  "host \<Rightarrow> config \<Rightarrow> remote \<Rightarrow> string \<Rightarrow> string \<Rightarrow> string \<Rightarrow> string option \<Rightarrow> js_error \<Rightarrow> js_error + offer list" where
  "searchFlights_multi_catch H cfg W orig dest dIda dVolta error =
     (let direct =
            (if amadeus_enabled cfg
             then (case searchFlightsAmadeus H cfg W orig dest dIda dVolta of
                     Inr flights \<Rightarrow> (if 0 < length flights then Some flights else None)
                   | Inl amadeusError \<Rightarrow> None)
             else None)
      in case direct of
           Some flights \<Rightarrow> Inr (map Plain flights)
         | None \<Rightarrow>
             (if USE_MOCK_FLIGHTS cfg then mock_offers H orig dest dIda dVolta
              else Inl error))"

definition searchFlights ::
  "host \<Rightarrow> config \<Rightarrow> remote \<Rightarrow> string \<Rightarrow> string \<Rightarrow> string \<Rightarrow> string option \<Rightarrow> js_error + offer list" where
  "searchFlights H cfg W orig dest dIda dVolta =
     (if USE_MOCK_DATA cfg \<and> \<not> useMultiAPI cfg
      then mock_offers H orig dest dIda dVolta
      else if useMultiAPI cfg
      then (case searchFlights_multi_try H cfg W orig dest dIda dVolta of
              Inl error \<Rightarrow> searchFlights_multi_catch H cfg W orig dest dIda dVolta error
            | Inr found \<Rightarrow> Inr found)
      else (case (case searchFlightsAmadeus H cfg W orig dest dIda dVolta of
                    Inl e \<Rightarrow> Inl e
                  | Inr flights \<Rightarrow>
                      (if length flights = 0
                       then Inl (Error (''Nenhum voo encontrado para os crit'' @ [CHR 0xE9] @ ''rios informados.''))
                       else Inr (map Plain flights))) of
              Inl error \<Rightarrow>
                (if USE_MOCK_FLIGHTS cfg then mock_offers H orig dest dIda dVolta
                 else Inl error)
            | Inr found \<Rightarrow> Inr found))"

section \<open>PriceConfirmationService\<close>

text \<open>What \<open>confirmFlightPrice\<close> returns, and an offer of \<open>confirmMultipleFlightPrices\<close>: the
  offer that was given, spread, with the confirmed and the original price.\<close>

record confirmed_price =
  cp_id :: "string option"
  cp_preco :: "string option"
  precoBase :: "string option"
  cp_moeda :: "string option"
  grandTotal :: "string option"
  taxas :: "jsv list"
  ultimaDataEmissao :: "string option"
  assentosDisponiveis :: "nat option"
  requerEmissaoImediata :: bool
  detalhesPreco :: "jsv list"
  opcoesBolsas :: jsv
  confirmado :: bool
  timestamp :: string

record confirmed_offer =
  co_offer :: amadeus_offer
  precoConfirmado :: confirmed_price
  precoOriginal :: "string option"

text \<open>\<open>a || b\<close> on optional texts, and \<open>flightOffer.price?.total\<close>.\<close>

definition first_text :: "string option \<Rightarrow> string option \<Rightarrow> string option" where
  "first_text a b = (case or_null a of Some s \<Rightarrow> Some s | None \<Rightarrow> b)"

definition offer_total :: "amadeus_offer \<Rightarrow> string option" where
  "offer_total offer = (case price offer of Some p \<Rightarrow> price_total p | None \<Rightarrow> None)"

text \<open>The \<open>catch\<close> of \<open>confirmFlightPrice\<close>.\<close>

definition confirm_error :: "js_error \<Rightarrow> js_error" where
  "confirm_error error =
     (if status error = Some 400
      then Error (''Erro ao confirmar pre'' @ [CHR 0xE7] @ ''o: '' @ text_or (detail error) (''Par'' @ [CHR 0xE2] @ ''metros inv'' @ [CHR 0xE1] @ ''lidos''))
      else if status error = Some 404
      then Error (''Oferta de voo n'' @ [CHR 0xE3] @ ''o encontrada ou expirada'')
      else if status error = Some 429
      then Error (''Limite de requisi'' @ [CHR 0xE7] @ [CHR 0xF5] @ ''es excedido. Tente novamente mais tarde.'')
      else Error (''Erro ao confirmar pre'' @ [CHR 0xE7] @ ''o: '' @ message error))"

definition confirmed_of :: "host \<Rightarrow> amadeus_offer \<Rightarrow> priced_offer \<Rightarrow> confirmed_price" where
  "confirmed_of H flightOffer confirmedOffer =
     (let p = po_price confirmedOffer;
          get = (\<lambda>sel. case p of Some q \<Rightarrow> sel q | None \<Rightarrow> None);
          own = (\<lambda>sel. case price flightOffer of Some q \<Rightarrow> sel q | None \<Rightarrow> None)
      in \<lparr> cp_id = po_id confirmedOffer,
           cp_preco = first_text (get pp_total) (own price_total),
           precoBase = first_text (get pp_base) (own price_base),
           cp_moeda = first_text (get pp_currency) (own price_currency),
           grandTotal = first_text (get pp_grandTotal) (get pp_total),
           taxas = (case p of Some q \<Rightarrow> (case pp_fees q of Some fs \<Rightarrow> fs | None \<Rightarrow> []) | None \<Rightarrow> []),
           ultimaDataEmissao = lastTicketingDate confirmedOffer,
           assentosDisponiveis = numberOfBookableSeats confirmedOffer,
           requerEmissaoImediata =
             (case instantTicketingRequired confirmedOffer of Some b \<Rightarrow> b | None \<Rightarrow> False),
           detalhesPreco = (case travelerPricings confirmedOffer of Some tp \<Rightarrow> tp | None \<Rightarrow> []),
           opcoesBolsas =
             (case travelerPricings confirmedOffer of
                Some (tp # _) \<Rightarrow> first_truthy [get_prop tp ''fareDetailsBySegment''] (JArr [])
              | _ \<Rightarrow> JArr []),
           confirmado = True,
           timestamp = nowISO H \<rparr>)"

text \<open>
  \<open>confirmFlightPrice\<close>: what its promise settles with, and the pricing requests it sent,
  which is the given offer once the token is there and nothing otherwise. An empty
  answer raises inside the \<open>try\<close>, so the \<open>catch\<close> wraps that error as well.
\<close>

definition confirmFlightPrice ::
  "host \<Rightarrow> config \<Rightarrow> remote \<Rightarrow> amadeus_offer \<Rightarrow> (js_error + confirmed_price) \<times> amadeus_offer list" where
  "confirmFlightPrice H cfg W flightOffer =
     (if \<not> amadeus_enabled cfg
      then (Inl (Error (''API Amadeus n'' @ [CHR 0xE3] @ ''o configurada'')), [])
      else
        (case getAmadeusToken W of
           Inl error \<Rightarrow> (Inl (confirm_error error), [])
         | Inr token \<Rightarrow>
             (case pricing_post W token flightOffer of
                Inl error \<Rightarrow> (Inl (confirm_error error), [flightOffer])
              | Inr None \<Rightarrow>
                  (Inl (confirm_error (Error (''Nenhuma oferta de pre'' @ [CHR 0xE7] @ ''o confirmada retornada''))), [flightOffer])
              | Inr (Some []) \<Rightarrow>
                  (Inl (confirm_error (Error (''Nenhuma oferta de pre'' @ [CHR 0xE7] @ ''o confirmada retornada''))), [flightOffer])
              | Inr (Some (confirmedOffer # _)) \<Rightarrow>
                  (Inr (confirmed_of H flightOffer confirmedOffer), [flightOffer]))))"

text \<open>
  \<open>confirmMultipleFlightPrices\<close>: the confirmed offers it returns and the pricing requests
  that were sent on the way. The five confirmations run side by side; each sends at most
  one request, and the requests are listed here in the order of the offers.
\<close>

definition confirmMultipleFlightPrices ::
  "host \<Rightarrow> config \<Rightarrow> remote \<Rightarrow> amadeus_offer list \<Rightarrow> (js_error + confirmed_offer list) \<times> amadeus_offer list" where
  "confirmMultipleFlightPrices H cfg W flightOffers =
     (if length flightOffers = 0 then (Inr [], [])
      else
        (let offersToConfirm = take 5 flightOffers;
             promises = map_index (\<lambda>offer index. confirmFlightPrice H cfg W offer) offersToConfirm;
             results = map fst promises;
             confirmed =
               concat (map_index
                 (\<lambda>result index.
                    case result of
                      Inr value \<Rightarrow>
                        [\<lparr> co_offer = flightOffers ! index,
                            precoConfirmado = value,
                            precoOriginal = offer_total (flightOffers ! index) \<rparr>]
                    | Inl error \<Rightarrow> [])
                 results)
         in (Inr confirmed, concat (map snd promises))))"

section \<open>Search outcomes and payload shapes\<close>

text \<open>The body of the \<open>try\<close> of a provider's adapter: whether the search of the provider
  raised, before the \<open>catch\<close> of the adapter turns the error into an empty list.\<close>

definition search_try ::
  "host \<Rightarrow> remote \<Rightarrow> string \<Rightarrow> string \<Rightarrow> string \<Rightarrow> string option \<Rightarrow> provider \<Rightarrow> js_error + voo list" where
  "search_try H W orig dest dIda dVolta p =
     (case p of
        TRAVELLINK \<Rightarrow> searchTravelLink_try H W orig dest dIda dVolta
      | AMADEUS \<Rightarrow> searchAmadeus_try H W orig dest dIda dVolta
      | AVIATIONSTACK \<Rightarrow> searchAviationStack_try H W orig dest dIda dVolta)"

text \<open>The offers of a search that did not raise.\<close>

definition found :: "js_error + voo list \<Rightarrow> voo list" where
  "found outcome = (case outcome of Inr flights \<Rightarrow> flights | Inl error \<Rightarrow> [])"



section \<open>Inputs for the examples\<close>

text \<open>
  A host for the examples: \<open>parseFloat\<close> and \<open>parseInt\<close> read an unsigned decimal numeral at
  the front of a text, \<open>numberText\<close> prints the whole part of a number that is not
  negative, a date is a text of ten characters and every date is the same day, and every
  draw is 0.
\<close>

definition digits_value :: "string \<Rightarrow> nat" where
  "digits_value s = foldl (\<lambda>n c. 10 * n + (code_unit c - 48)) 0 s"

definition example_parseFloat :: "string \<Rightarrow> real option" where
  "example_parseFloat s =
     (let ip = takeWhile is_digit s; r = dropWhile is_digit s in
      if ip = [] then None
      else (case r of
              [] \<Rightarrow> Some (real (digits_value ip))
            | c # fs \<Rightarrow>
                (if c = CHR ''.''
                 then (let fp = takeWhile is_digit fs in
                       Some (real (digits_value ip) + real (digits_value fp) / 10 ^ length fp))
                 else Some (real (digits_value ip)))))"

definition example_parseInt :: "string \<Rightarrow> int option" where
  "example_parseInt s =
     (if takeWhile is_digit s = [] then None
      else Some (int (digits_value (takeWhile is_digit s))))"

function decimal :: "nat \<Rightarrow> string" where
  "decimal n =
     (if n < 10 then [char_of (48 + n)]
      else decimal (n div 10) @ [char_of (48 + n mod 10)])"
  by pat_completeness auto
termination
  by (relation "measure id") auto

definition example_host :: host where
  "example_host =
     \<lparr> parseFloat = example_parseFloat,
       parseInt = example_parseInt,
       numberText = (\<lambda>r. decimal (nat \<lfloor>r\<rfloor>)),
       now = 1766649600000,
       nowISO = ''2025-12-25T08:00:00.000Z'',
       toFixed2 = (\<lambda>r. decimal (nat \<lfloor>r\<rfloor>) @ ''.00''),
       random = (\<lambda>i k. 0),
       dateOf = (\<lambda>s. if length s = 10 then Some 1766649600000 else None),
       toISOString = (\<lambda>t. ''2025-12-25T08:00:00.000Z''),
       setHours = (\<lambda>t h m. t) \<rparr>"

text \<open>One leg from GRU to SDU, and two arguments of \<open>normalizeFlight\<close> for the same
  itinerary: one with a price and one leg, to be tagged \<open>TRAVELLINK\<close>, and one with two
  legs and a price that reads as zero, to be tagged \<open>AMADEUS\<close>.\<close>

definition example_leg :: segmento where
  "example_leg =
     \<lparr> seg_origem = Some ''GRU'', seg_destino = Some ''SDU'',
       partida = Some ''2025-12-25T08:00:00'', chegada = Some ''2025-12-25T09:05:00'',
       duracao = Some ''PT1H5M'', seg_companhia = Some ''LATAM'', numeroVoo = Some ''3900'' \<rparr>"

definition example_in_travellink :: voo_in where
  "example_in_travellink =
     \<lparr> in_id = ''TL-1'', in_preco = PrecoNum 500, in_moeda = ''BRL'', in_companhia = ''LATAM'',
       in_origem = ''GRU'', in_destino = ''SDU'', in_dataIda = ''2025-12-25T08:00:00'',
       in_dataVolta = None, in_duracaoIda = ''1h 5m'', in_duracaoVolta = None,
       in_escalasIda = 0, in_escalasVolta = None,
       in_detalhes = Some \<lparr> ida = Some [example_leg], volta = None \<rparr>,
       in_linkReserva = ''TRAVELLINK'', in_originalOffer = Some (TravelLinkVoo (JObj [])) \<rparr>"

definition example_in_amadeus :: voo_in where
  "example_in_amadeus =
     \<lparr> in_id = ''1'', in_preco = PrecoText ''0'', in_moeda = ''BRL'', in_companhia = ''LATAM'',
       in_origem = ''GRU'', in_destino = ''SDU'', in_dataIda = ''2025-12-25T08:00:00'',
       in_dataVolta = None, in_duracaoIda = ''3h 0m'', in_duracaoVolta = None,
       in_escalasIda = 1, in_escalasVolta = None,
       in_detalhes = Some \<lparr> ida = Some [example_leg, example_leg], volta = None \<rparr>,
       in_linkReserva = ''AMADEUS'', in_originalOffer = None \<rparr>"

definition example_stored :: voo where
  "example_stored = normalizeFlight example_host 0 example_in_travellink ''TRAVELLINK''"

definition example_incoming :: voo where
  "example_incoming = normalizeFlight example_host 0 example_in_amadeus ''AMADEUS''"


text \<open>All three providers enabled and no synthetic fallback; the same with the
  fallback.\<close>

definition example_config :: config where
  "example_config =
     \<lparr> travellink_enabled = True, amadeus_enabled = True, aviationstack_enabled = True,
       USE_MOCK_FLIGHTS = False \<rparr>"

definition example_config_mock :: config where
  "example_config_mock = example_config \<lparr> USE_MOCK_FLIGHTS := True \<rparr>"

text \<open>An offer of the OAuth REST provider and a flight of the secondary provider.\<close>

definition example_amadeus_offer :: amadeus_offer where
  "example_amadeus_offer =
     \<lparr> offer_id = Some ''1'',
       price = Some \<lparr> price_total = Some ''129.90'', price_currency = Some ''BRL'',
                      price_base = Some ''100.00'' \<rparr>,
       itineraries =
         Some [\<lparr> it_duration = Some ''PT1H5M'',
                 segments =
                   Some [\<lparr> departure = Some \<lparr> iataCode = Some ''GRU'', at_time = Some ''2025-12-25T08:00:00'' \<rparr>,
                           arrival = Some \<lparr> iataCode = Some ''SDU'', at_time = Some ''2025-12-25T09:05:00'' \<rparr>,
                           seg_duration = Some ''PT1H5M'', carrierCode = Some ''LA'',
                           seg_number = Some ''3900'' \<rparr>] \<rparr>],
       offer_source = Some ''GDS'' \<rparr>"

definition example_aviation_flight :: aviation_flight where
  "example_aviation_flight =
     \<lparr> airline_name = Some ''GOL'', airline_iata = Some ''G3'',
       departure_iata = Some ''GRU'', departure_scheduled = Some ''2025-12-25T10:00:00+00:00'',
       arrival_iata = Some ''SDU'', arrival_scheduled = Some ''2025-12-25T11:00:00+00:00'',
       flight_number = Some ''1002'' \<rparr>"

definition example_priced :: priced_offer where
  "example_priced =
     \<lparr> po_id = Some ''1'',
       po_price = Some \<lparr> pp_total = Some ''131.40'', pp_base = Some ''100.00'',
                         pp_currency = Some ''BRL'', pp_grandTotal = Some ''131.40'',
                         pp_fees = None \<rparr>,
       lastTicketingDate = Some ''2025-12-20'', numberOfBookableSeats = Some 4,
       instantTicketingRequired = Some False, travelerPricings = None \<rparr>"

text \<open>
  Three remote sides. In the first the SOAP client cannot be built and the two REST
  providers answer with one offer each. In the second nothing can be reached. In the
  third every provider answers and has no offer.
\<close>

definition example_remote :: remote where
  "example_remote =
     \<lparr> cached_token = None,
       token_post = Inr ''token'',
       amadeus_get = (\<lambda>token params. Inr (Some [example_amadeus_offer])),
       createClient = Inl (Error ''connect ECONNREFUSED''),
       aviationstack_get = (\<lambda>params. Inr (Some [example_aviation_flight])),
       settles = TAV,
       pricing_post = (\<lambda>token offer. Inr (Some [example_priced])),
       flights_cached_token = None \<rparr>"

definition example_remote_down :: remote where
  "example_remote_down =
     example_remote
       \<lparr> token_post := Inl (Error ''connect ECONNREFUSED''),
         aviationstack_get := (\<lambda>params. Inl (Error ''connect ECONNREFUSED'')) \<rparr>"

definition example_client :: soap_client where
  "example_client =
     \<lparr> has_DisponibilidadeAsync = True, has_Disponibilidade = True,
       Disponibilidade = (\<lambda>params. Inr (JObj [(''DisponibilidadeResult'', JArr [])])) \<rparr>"

definition example_remote_empty :: remote where
  "example_remote_empty =
     example_remote
       \<lparr> amadeus_get := (\<lambda>token params. Inr (Some [])),
         createClient := Inr example_client,
         aviationstack_get := (\<lambda>params. Inr None) \<rparr>"




text \<open>Seven offers to confirm, told apart by their ids.\<close>

definition example_offers :: "amadeus_offer list" where
  "example_offers =
     map (\<lambda>i. example_amadeus_offer \<lparr> offer_id := Some i \<rparr>)
       [''1'', ''2'', ''3'', ''4'', ''5'', ''6'', ''7'']"

section \<open>Properties of the city code resolver\<close>



















section \<open>Properties of the reliability scorer\<close>




lemma example_parse_zero: "example_parseFloat ''0'' = Some 0"
  by code_simp

lemma example_stored_fields:
  "confiabilidade example_stored = 1" "ida_length example_stored = 1"
  "dedup_key example_stored = ''GRU-SDU-2025-12-25-LATAM''" "voo_id example_stored = ''TL-1''"
  "preco example_stored = 500" "fonte example_stored = ''TRAVELLINK''"
  by (simp_all add: example_stored_def normalizeFlight_def example_in_travellink_def
      calculateReliability_def has_ida_def has_preco_def truthy_preco_def parseFloat_of_def
      ida_length_def dedup_key_def or_str_def or_num_def substring0_def Let_def)

lemma example_incoming_fields:
  "confiabilidade example_incoming = 0.9" "ida_length example_incoming = 2"
  "dedup_key example_incoming = ''GRU-SDU-2025-12-25-LATAM''" "voo_id example_incoming = ''1''"
  "preco example_incoming = 0" "fonte example_incoming = ''AMADEUS''"
  by (simp_all add: example_incoming_def normalizeFlight_def example_in_amadeus_def
      calculateReliability_def has_ida_def has_preco_def truthy_preco_def parseFloat_of_def
      ida_length_def dedup_key_def or_str_def or_num_def substring0_def Let_def
      example_host_def example_parse_zero)



section \<open>Properties of the ranking\<close>





lemma mset_insert_by: "mset (insert_by cmp x ys) = add_mset x (mset ys)"
  by (induction ys) auto

lemma mset_js_sort: "mset (js_sort cmp xs) = mset xs"
  unfolding js_sort_def by (induction xs) (simp_all add: mset_insert_by)

lemma set_js_sort: "set (js_sort cmp xs) = set xs"
  using mset_js_sort [of cmp xs] by (metis set_mset_mset)

lemma length_js_sort: "length (js_sort cmp xs) = length xs"
  using mset_js_sort [of cmp xs] by (metis size_mset)







section \<open>Properties of the deduplicator\<close>

lemma dedup_loop_snoc:
  "dedup_loop (flights @ [incoming]) = dedup_step incoming (dedup_loop flights)"
  by (simp add: dedup_loop_def)

lemma findIndex_first:
  assumes "x \<in> set xs" and "p x" and "\<forall>y\<in>set xs. p y \<longrightarrow> y = x"
  shows "\<exists>i. findIndex p xs = Some i \<and> i < length xs \<and> xs ! i = x"
  using assms
proof (induction xs)
  case Nil
  then show ?case by simp
next
  case (Cons a xs)
  show ?case
  proof (cases "p a")
    case True
    then have "a = x" using Cons.prems(3) by simp
    with True show ?thesis by simp
  next
    case False
    then have mem: "x \<in> set xs" using Cons.prems(1,2) by auto
    have uniq: "\<forall>y\<in>set xs. p y \<longrightarrow> y = x" using Cons.prems(3) by simp
    obtain i where i: "findIndex p xs = Some i" "i < length xs" "xs ! i = x"
      using Cons.IH [OF mem Cons.prems(2) uniq] by blast
    have "findIndex p (a # xs) = Some (Suc i)"
      using False i(1) by simp
    moreover have "Suc i < length (a # xs)" using i(2) by simp
    moreover have "(a # xs) ! Suc i = x" using i(3) by simp
    ultimately show ?thesis by blast
  qed
qed

lemma list_update_as_map:
  assumes "distinct xs" and "i < length xs"
  shows "xs[i := v] = map (\<lambda>f. if f = xs ! i then v else f) xs"
proof (rule nth_equalityI)
  show "length (xs[i := v]) = length (map (\<lambda>f. if f = xs ! i then v else f) xs)"
    by simp
next
  fix j
  assume "j < length (xs[i := v])"
  then have j: "j < length xs" by simp
  show "xs[i := v] ! j = map (\<lambda>f. if f = xs ! i then v else f) xs ! j"
  proof (cases "j = i")
    case True
    have "xs[i := v] ! i = v" using assms(2) by simp
    moreover have "map (\<lambda>f. if f = xs ! i then v else f) xs ! i = v"
      using assms(2) by simp
    ultimately show ?thesis using True by simp
  next
    case False
    have neq: "xs ! j \<noteq> xs ! i"
      using nth_eq_iff_index_eq [OF assms(1) j assms(2)] False by simp
    have "xs[i := v] ! j = xs ! j" using False by simp
    moreover have "map (\<lambda>f. if f = xs ! i then v else f) xs ! j = xs ! j"
      using j neq by simp
    ultimately show ?thesis by simp
  qed
qed

lemma dedup_invariant:
  assumes "distinct (map voo_id flights)"
  shows "(\<forall>f\<in>set (snd (dedup_loop flights)). fst (dedup_loop flights) (dedup_key f) = Some f) \<and>
         (\<forall>k f. fst (dedup_loop flights) k = Some f \<longrightarrow>
                  f \<in> set (snd (dedup_loop flights)) \<and> dedup_key f = k) \<and>
         set (snd (dedup_loop flights)) \<subseteq> set flights \<and>
         distinct (snd (dedup_loop flights))"
  using assms
proof (induction flights rule: rev_induct)
  case Nil
  then show ?case by (simp add: dedup_loop_def)
next
  case (snoc x xs)
  define seen where "seen = fst (dedup_loop xs)"
  define unique where "unique = snd (dedup_loop xs)"
  have loop: "dedup_loop xs = (seen, unique)"
    by (simp add: seen_def unique_def)
  have dxs: "distinct (map voo_id xs)" and newid: "voo_id x \<notin> voo_id ` set xs"
    using snoc.prems by simp_all
  have inj: "inj_on voo_id (set xs)"
    using dxs by (simp add: distinct_map)
  have I1: "\<forall>f\<in>set unique. seen (dedup_key f) = Some f"
    and I2: "\<forall>k f. seen k = Some f \<longrightarrow> f \<in> set unique \<and> dedup_key f = k"
    and I3: "set unique \<subseteq> set xs"
    and I4: "distinct unique"
    using snoc.IH [OF dxs] by (simp_all add: seen_def unique_def)
  have xnew: "x \<notin> set unique"
    using I3 newid by auto
  show ?case
  proof (cases "seen (dedup_key x)")
    case None
    then have step: "dedup_loop (xs @ [x]) = (seen(dedup_key x \<mapsto> x), unique @ [x])"
      by (simp add: dedup_loop_snoc loop dedup_step_def Let_def)
    have other: "\<And>f. f \<in> set unique \<Longrightarrow> dedup_key f \<noteq> dedup_key x"
    proof
      fix f assume "f \<in> set unique" and "dedup_key f = dedup_key x"
      then have "seen (dedup_key x) = Some f" using I1 by metis
      with None show False by simp
    qed
    have J1: "\<forall>f\<in>set (unique @ [x]). (seen(dedup_key x \<mapsto> x)) (dedup_key f) = Some f"
    proof
      fix f assume "f \<in> set (unique @ [x])"
      then consider "f = x" | "f \<in> set unique" by auto
      then show "(seen(dedup_key x \<mapsto> x)) (dedup_key f) = Some f"
      proof cases
        case 1
        then show ?thesis by simp
      next
        case 2
        then show ?thesis using other [OF 2] I1 by simp
      qed
    qed
    have J2: "\<forall>k f. (seen(dedup_key x \<mapsto> x)) k = Some f \<longrightarrow>
                f \<in> set (unique @ [x]) \<and> dedup_key f = k"
    proof (intro allI impI)
      fix k f assume kf: "(seen(dedup_key x \<mapsto> x)) k = Some f"
      show "f \<in> set (unique @ [x]) \<and> dedup_key f = k"
      proof (cases "k = dedup_key x")
        case True
        with kf show ?thesis by simp
      next
        case False
        with kf have "seen k = Some f" by simp
        then show ?thesis using I2 by simp
      qed
    qed
    have J3: "set (unique @ [x]) \<subseteq> set (xs @ [x])"
      using I3 by auto
    have J4: "distinct (unique @ [x])"
      using I4 xnew by simp
    show ?thesis
      unfolding step fst_conv snd_conv using J1 J2 J3 J4 by blast
  next
    case (Some e)
    then have e: "e \<in> set unique" "dedup_key e = dedup_key x"
      using I2 by simp_all
    show ?thesis
    proof (cases "replaces x e")
      case False
      then have step: "dedup_loop (xs @ [x]) = (seen, unique)"
        using Some by (simp add: dedup_loop_snoc loop dedup_step_def Let_def)
      have J3: "set unique \<subseteq> set (xs @ [x])"
        using I3 by auto
      show ?thesis
        unfolding step fst_conv snd_conv using I1 I2 J3 I4 by blast
    next
      case True
      have "\<forall>y\<in>set unique. voo_id y = voo_id e \<longrightarrow> y = e"
      proof (intro ballI impI)
        fix y assume "y \<in> set unique" and "voo_id y = voo_id e"
        moreover have "y \<in> set xs" "e \<in> set xs"
          using I3 e(1) calculation(1) by auto
        ultimately show "y = e"
          using inj by (simp add: inj_on_def)
      qed
      then obtain i where i: "findIndex (\<lambda>f. voo_id f = voo_id e) unique = Some i"
        "i < length unique" "unique ! i = e"
        using findIndex_first [of e unique "\<lambda>f. voo_id f = voo_id e"] e(1) by auto
      have step: "dedup_loop (xs @ [x]) = (seen(dedup_key x \<mapsto> x), unique[i := x])"
        using Some True i(1) by (simp add: dedup_loop_snoc loop dedup_step_def Let_def)
      have set': "set (unique[i := x]) = insert x (set unique - {e})"
        using I4 i by (simp add: set_update_distinct)
      have other: "\<And>f. f \<in> set unique \<Longrightarrow> f \<noteq> e \<Longrightarrow> dedup_key f \<noteq> dedup_key x"
      proof
        fix f assume f: "f \<in> set unique" "f \<noteq> e" and "dedup_key f = dedup_key x"
        then have "seen (dedup_key x) = Some f" using I1 by metis
        with Some f(2) show False by simp
      qed
      have J1: "\<forall>f\<in>set (unique[i := x]). (seen(dedup_key x \<mapsto> x)) (dedup_key f) = Some f"
      proof
        fix f assume "f \<in> set (unique[i := x])"
        then consider "f = x" | "f \<in> set unique" "f \<noteq> e" by (auto simp: set')
        then show "(seen(dedup_key x \<mapsto> x)) (dedup_key f) = Some f"
        proof cases
          case 1
          then show ?thesis by simp
        next
          case 2
          then show ?thesis using other [OF 2] I1 by simp
        qed
      qed
      have J2: "\<forall>k f. (seen(dedup_key x \<mapsto> x)) k = Some f \<longrightarrow>
                  f \<in> set (unique[i := x]) \<and> dedup_key f = k"
      proof (intro allI impI)
        fix k f assume kf: "(seen(dedup_key x \<mapsto> x)) k = Some f"
        show "f \<in> set (unique[i := x]) \<and> dedup_key f = k"
        proof (cases "k = dedup_key x")
          case True
          with kf show ?thesis using set' by auto
        next
          case False
          with kf have s: "seen k = Some f" by simp
          then have "f \<in> set unique" "dedup_key f = k" using I2 by simp_all
          moreover have "f \<noteq> e" using False e(2) calculation(2) by auto
          ultimately show ?thesis by (simp add: set')
        qed
      qed
      have J3: "set (unique[i := x]) \<subseteq> set (xs @ [x])"
        using I3 by (auto simp: set')
      have J4: "distinct (unique[i := x])"
        using I4 xnew by (simp add: distinct_list_update)
      show ?thesis
        unfolding step fst_conv snd_conv using J1 J2 J3 J4 by blast
    qed
  qed
qed

text \<open>
  Claim C3, as the code has it. When the incoming offer collides with the offer stored
  under its key, the incoming one takes its place if and only if it has a strictly higher
  reliability or a strictly longer list of outbound legs; the two tests are joined by
  \<open>or\<close>, so a longer list wins whatever the reliabilities are. Otherwise the stored offer
  stays. When the offers of the merged list have different ids, the stored offer is in
  the returned list and the replacement happens there, in its place.
\<close>

theorem dedup_replacement_rule:
  assumes "fst (dedup_loop flights) (dedup_key incoming) = Some existing"
  shows "fst (dedup_loop (flights @ [incoming])) (dedup_key incoming) =
           Some (if confiabilidade existing < confiabilidade incoming \<or>
                    ida_length existing < ida_length incoming
                 then incoming else existing) \<and>
         (distinct (map voo_id (flights @ [incoming])) \<longrightarrow>
            existing \<in> set (deduplicateFlights flights) \<and>
            deduplicateFlights (flights @ [incoming]) =
              map (\<lambda>f. if f = existing \<and>
                           (confiabilidade existing < confiabilidade incoming \<or>
                            ida_length existing < ida_length incoming)
                        then incoming else f)
                (deduplicateFlights flights))"
proof (intro conjI impI)
  show "fst (dedup_loop (flights @ [incoming])) (dedup_key incoming) =
           Some (if confiabilidade existing < confiabilidade incoming \<or>
                    ida_length existing < ida_length incoming
                 then incoming else existing)"
    using assms by (simp add: dedup_loop_snoc dedup_step_def Let_def replaces_def)
next
  assume d: "distinct (map voo_id (flights @ [incoming]))"
  then have dxs: "distinct (map voo_id flights)" by simp
  define unique where "unique = snd (dedup_loop flights)"
  have inv: "\<forall>f\<in>set unique. fst (dedup_loop flights) (dedup_key f) = Some f"
    "\<forall>k f. fst (dedup_loop flights) k = Some f \<longrightarrow> f \<in> set unique \<and> dedup_key f = k"
    "set unique \<subseteq> set flights" "distinct unique"
    using dedup_invariant [OF dxs] by (simp_all add: unique_def)
  show e: "existing \<in> set (deduplicateFlights flights)"
    using inv(2) assms by (simp add: deduplicateFlights_def unique_def)
  show "deduplicateFlights (flights @ [incoming]) =
          map (\<lambda>f. if f = existing \<and>
                       (confiabilidade existing < confiabilidade incoming \<or>
                        ida_length existing < ida_length incoming)
                    then incoming else f)
            (deduplicateFlights flights)"
  proof (cases "replaces incoming existing")
    case False
    then show ?thesis
      using assms
      by (simp add: deduplicateFlights_def dedup_loop_snoc dedup_step_def Let_def replaces_def)
  next
    case True
    have inj: "inj_on voo_id (set flights)"
      using dxs by (simp add: distinct_map)
    have eu: "existing \<in> set unique"
      using e by (simp add: deduplicateFlights_def unique_def)
    have "\<forall>y\<in>set unique. voo_id y = voo_id existing \<longrightarrow> y = existing"
    proof (intro ballI impI)
      fix y assume "y \<in> set unique" and "voo_id y = voo_id existing"
      moreover have "y \<in> set flights" "existing \<in> set flights"
        using inv(3) eu calculation(1) by auto
      ultimately show "y = existing"
        using inj by (simp add: inj_on_def)
    qed
    then obtain i where i: "findIndex (\<lambda>f. voo_id f = voo_id existing) unique = Some i"
      "i < length unique" "unique ! i = existing"
      using findIndex_first [of existing unique "\<lambda>f. voo_id f = voo_id existing"] eu by auto
    have "deduplicateFlights (flights @ [incoming]) = unique[i := incoming]"
      using assms True i(1)
      by (simp add: deduplicateFlights_def dedup_loop_snoc dedup_step_def Let_def unique_def)
    also have "\<dots> = map (\<lambda>f. if f = unique ! i then incoming else f) unique"
      using inv(4) i(2) by (rule list_update_as_map)
    finally show ?thesis
      using True i(3) by (simp add: deduplicateFlights_def unique_def replaces_def)
  qed
qed

lemma example_dedup:
  "deduplicateFlights [example_stored, example_incoming] = [example_incoming]"
  by (simp add: deduplicateFlights_def dedup_loop_def dedup_step_def Let_def replaces_def
      example_stored_fields example_incoming_fields)

theorem dedup_replacement_rule_witness:
  "fst (dedup_loop [example_stored]) (dedup_key example_incoming) = Some example_stored \<and>
   fst (dedup_loop ([example_stored] @ [example_incoming])) (dedup_key example_incoming) =
     Some example_incoming \<and>
   example_stored \<in> set (deduplicateFlights [example_stored]) \<and>
   deduplicateFlights ([example_stored] @ [example_incoming]) = [example_incoming]"
proof -
  have h: "fst (dedup_loop [example_stored]) (dedup_key example_incoming) = Some example_stored"
    by (simp add: dedup_loop_def dedup_step_def Let_def example_stored_fields
        example_incoming_fields)
  have d: "distinct (map voo_id ([example_stored] @ [example_incoming]))"
    by (simp add: example_stored_fields example_incoming_fields)
  have u: "deduplicateFlights [example_stored] = [example_stored]"
    by (simp add: deduplicateFlights_def dedup_loop_def dedup_step_def Let_def)
  show ?thesis
    using dedup_replacement_rule [OF h] h d u
    by (simp add: example_stored_fields example_incoming_fields)
qed

text \<open>The claim as the spec words it fails: the incoming offer has the lower reliability
  (0.9 against 1) and the longer list of legs (2 against 1), and it replaces the stored
  one.\<close>

theorem dedup_lower_reliability_counterexample:
  "dedup_key example_incoming = dedup_key example_stored \<and>
   confiabilidade example_incoming < confiabilidade example_stored \<and>
   deduplicateFlights [example_stored, example_incoming] = [example_incoming]"
  by (simp add: example_dedup example_stored_fields example_incoming_fields)

section \<open>Properties of the orchestrator\<close>

lemma fonte_normalizeFlight: "fonte (normalizeFlight H r flight source) = source"
  by (simp add: normalizeFlight_def)

lemma fonte_formatarVooTravelLink:
  "fonte (formatarVooTravelLink H v origemCode destinoCode index) = ''TRAVELLINK''"
  by (simp add: formatarVooTravelLink_def Let_def fonte_normalizeFlight)

lemma list_all_map_index:
  assumes "\<And>x i. P (f x i)"
  shows "list_all P (map_index f xs)"
  using assms by (auto simp: map_index_def list_all_iff)

lemma list_all_concat_map_index:
  assumes "\<And>x i. list_all P (f x i)"
  shows "list_all P (concat (map_index f xs))"
proof -
  have "list_all (list_all P) (map_index f xs)"
    using assms by (rule list_all_map_index)
  then show ?thesis
    by (auto simp: list_all_iff)
qed

lemma formatar_todos_fonte:
  "list_all (\<lambda>f. fonte f = ''TRAVELLINK'') (formatar_todos H xs origemCode destinoCode)"
  unfolding formatar_todos_def
  by (rule list_all_concat_map_index) (simp add: fonte_formatarVooTravelLink)

lemma processar_try_fonte:
  assumes "processarResultadosTravelLink_try H resultado oc dc = Inr flights"
  shows "list_all (\<lambda>f. fonte f = ''TRAVELLINK'') flights"
proof -
  let ?dados = "props_or resultado wrapper_keys resultado"
  let ?lista = "props_or ?dados lista_keys JUndef"
  consider (none) "flights = []"
    | (arr) xs where "flights = formatar_todos H xs oc dc"
    | (one) "flights = [formatarVooTravelLink H ?dados oc dc 0]"
    using assms
    by (auto simp: processarResultadosTravelLink_try_def Let_def
             split: if_splits jsv.splits)
  then show ?thesis
  proof cases
    case none
    then show ?thesis by simp
  next
    case arr
    then show ?thesis by (simp add: formatar_todos_fonte)
  next
    case one
    then show ?thesis by (simp add: fonte_formatarVooTravelLink)
  qed
qed

lemma processar_fonte:
  "list_all (\<lambda>f. fonte f = ''TRAVELLINK'') (processarResultadosTravelLink H resultado oc dc)"
proof (cases "processarResultadosTravelLink_try H resultado oc dc")
  case (Inl e)
  then show ?thesis by (simp add: processarResultadosTravelLink_def)
next
  case (Inr flights)
  then show ?thesis
    using processar_try_fonte [OF Inr] by (simp add: processarResultadosTravelLink_def)
qed

lemma searchTravelLink_try_fonte:
  assumes "searchTravelLink_try H W orig dest dIda dVolta = Inr flights"
  shows "list_all (\<lambda>f. fonte f = ''TRAVELLINK'') flights"
proof -
  consider (none) "flights = []"
    | (some) resultado where
        "flights = processarResultadosTravelLink H resultado (getCityCode orig) (getCityCode dest)"
    using assms
    by (auto simp: searchTravelLink_try_def Let_def split: sum.splits if_splits)
  then show ?thesis
  proof cases
    case none
    then show ?thesis by simp
  next
    case some
    then show ?thesis by (simp add: processar_fonte)
  qed
qed

lemma searchAmadeus_try_fonte:
  assumes "searchAmadeus_try H W orig dest dIda dVolta = Inr flights"
  shows "list_all (\<lambda>f. fonte f = ''AMADEUS'') flights"
proof -
  consider (none) "flights = []"
    | (some) offers where
        "flights = map_index (\<lambda>offer index. normalizeFlight H (draw H index 0)
                     (amadeus_voo_in H offer index) ''AMADEUS'') offers"
    using assms
    by (auto simp: searchAmadeus_try_def Let_def split: sum.splits option.splits if_splits)
  then show ?thesis
  proof cases
    case none
    then show ?thesis by simp
  next
    case some
    show ?thesis
      unfolding some by (rule list_all_map_index) (simp add: fonte_normalizeFlight)
  qed
qed

lemma searchAviationStack_try_fonte:
  assumes "searchAviationStack_try H W orig dest dIda dVolta = Inr flights"
  shows "list_all (\<lambda>f. fonte f = ''AVIATIONSTACK'') flights"
proof -
  consider (none) "flights = []"
    | (some) fs where
        "flights = map_index (\<lambda>flight index. normalizeFlight H (draw H index 0)
                     (aviation_voo_in H (getCityCode orig) (getCityCode dest) flight index)
                     ''AVIATIONSTACK'') fs"
    using assms
    by (auto simp: searchAviationStack_try_def Let_def split: sum.splits option.splits if_splits)
  then show ?thesis
  proof cases
    case none
    then show ?thesis by simp
  next
    case some
    show ?thesis
      unfolding some by (rule list_all_map_index) (simp add: fonte_normalizeFlight)
  qed
qed

lemma search_try_fonte:
  "list_all (\<lambda>f. fonte f = tag p) (found (search_try H W orig dest dIda dVolta p))"
proof (cases "search_try H W orig dest dIda dVolta p")
  case (Inl e)
  then show ?thesis by (simp add: found_def)
next
  case (Inr flights)
  then show ?thesis
    using searchTravelLink_try_fonte [of H W orig dest dIda dVolta flights]
          searchAmadeus_try_fonte [of H W orig dest dIda dVolta flights]
          searchAviationStack_try_fonte [of H W orig dest dIda dVolta flights]
    by (cases p) (simp_all add: found_def search_try_def)
qed

lemma search_task_found:
  "search_task H cfg W orig dest dIda dVolta p =
     Inr (if enabled cfg p then found (search_try H W orig dest dIda dVolta p) else [])"
  by (cases p)
     (auto simp: search_task_def search_try_def enabled_def found_def searchTravelLink_def
        searchAmadeus_def searchAviationStack_def split: sum.splits)

lemma fold_settle_task:
  "fold (\<lambda>p. settle_task p (Inr (g p))) ps st = (fst st @ concat (map g ps), snd st)"
  by (induction ps arbitrary: st) (simp_all add: settle_task_def)

lemma settled_results:
  "fold (\<lambda>p. settle_task p (search_task H cfg W orig dest dIda dVolta p)) ps ([], []) =
     (concat (map (\<lambda>p. if enabled cfg p then found (search_try H W orig dest dIda dVolta p) else [])
                ps), [])"
  using fold_settle_task
          [of "\<lambda>p. if enabled cfg p then found (search_try H W orig dest dIda dVolta p) else []"
              ps "([], [])"]
  by (simp add: search_task_found)

lemma dedup_step_subset: "set (snd (dedup_step x st)) \<subseteq> insert x (set (snd st))"
proof (cases "fst st (dedup_key x)")
  case None
  then show ?thesis by (auto simp: dedup_step_def Let_def)
next
  case (Some e)
  show ?thesis
  proof (cases "findIndex (\<lambda>f. voo_id f = voo_id e) (snd st)")
    case None
    with Some show ?thesis by (auto simp: dedup_step_def Let_def)
  next
    case (Some i)
    have "set ((snd st)[i := x]) \<subseteq> insert x (set (snd st))"
      by (rule set_update_subset_insert)
    with Some \<open>fst st (dedup_key x) = Some e\<close> show ?thesis
      by (auto simp: dedup_step_def Let_def)
  qed
qed

lemma fold_dedup_subset: "set (snd (fold dedup_step xs st)) \<subseteq> set (snd st) \<union> set xs"
proof (induction xs arbitrary: st)
  case Nil
  then show ?case by simp
next
  case (Cons x xs)
  have "set (snd (fold dedup_step xs (dedup_step x st))) \<subseteq> set (snd (dedup_step x st)) \<union> set xs"
    by (rule Cons.IH)
  also have "\<dots> \<subseteq> insert x (set (snd st)) \<union> set xs"
    using dedup_step_subset [of x st] by auto
  finally show ?case by auto
qed

lemma deduplicateFlights_subset: "set (deduplicateFlights xs) \<subseteq> set xs"
  using fold_dedup_subset [of xs "(Map.empty, [])"]
  by (simp add: deduplicateFlights_def dedup_loop_def)

lemma count_by_source:
  assumes "list_all (\<lambda>f. fonte f = ''TRAVELLINK'' \<or> fonte f = ''AMADEUS'' \<or> fonte f = ''AVIATIONSTACK'') xs"
  shows "length xs = length (filter (\<lambda>f. fonte f = ''TRAVELLINK'') xs) +
                     length (filter (\<lambda>f. fonte f = ''AMADEUS'') xs) +
                     length (filter (\<lambda>f. fonte f = ''AVIATIONSTACK'') xs)"
  using assms by (induction xs) auto

lemma multi_result:
  "searchFlightsMultiAPI H cfg W orig dest dIda dVolta =
     (let flights = js_sort compareFlights (deduplicateFlights
            (concat (map (\<lambda>p. if enabled cfg p
                               then found (search_try H W orig dest dIda dVolta p) else [])
                       (filter (enabled cfg) (order_of (settles W))))))
      in Inr \<lparr> voos = flights,
               estatisticas =
                 \<lparr> total = length flights,
                   fontes = \<lparr> travellink = length (filter (\<lambda>f. fonte f = ''TRAVELLINK'') flights),
                              amadeus = length (filter (\<lambda>f. fonte f = ''AMADEUS'') flights),
                              aviationstack = length (filter (\<lambda>f. fonte f = ''AVIATIONSTACK'') flights) \<rparr>,
                   erros = [] \<rparr> \<rparr>)"
  by (simp add: searchFlightsMultiAPI_def Let_def settled_results)

lemma multi_sources:
  "list_all (\<lambda>f. fonte f = ''TRAVELLINK'' \<or> fonte f = ''AMADEUS'' \<or> fonte f = ''AVIATIONSTACK'')
     (js_sort compareFlights (deduplicateFlights
        (concat (map (\<lambda>p. if enabled cfg p
                           then found (search_try H W orig dest dIda dVolta p) else [])
                   ps))))"
proof -
  have one: "list_all (\<lambda>f. fonte f = ''TRAVELLINK'' \<or> fonte f = ''AMADEUS'' \<or> fonte f = ''AVIATIONSTACK'')
               (found (search_try H W orig dest dIda dVolta p))" for p
    using search_try_fonte [of p H W orig dest dIda dVolta]
    by (cases p) (auto simp: list_all_iff)
  have "\<forall>f\<in>set (concat (map (\<lambda>p. if enabled cfg p
                           then found (search_try H W orig dest dIda dVolta p) else []) ps)).
          fonte f = ''TRAVELLINK'' \<or> fonte f = ''AMADEUS'' \<or> fonte f = ''AVIATIONSTACK''"
    using one by (auto simp: list_all_iff split: if_splits)
  then show ?thesis
    using deduplicateFlights_subset by (fastforce simp: list_all_iff set_js_sort)
qed

text \<open>
  Claim C10. The search always returns a result; its \<open>total\<close> is the length of the
  returned list and the sum of the three counts by source, because every offer of the
  list went through \<open>normalizeFlight\<close> in one of the three adapters and carries that
  adapter's tag as \<open>fonte\<close>.
\<close>

theorem stats_consistent:
  "(case searchFlightsMultiAPI H cfg W orig dest dIda dVolta of
      Inl e \<Rightarrow> False
    | Inr r \<Rightarrow>
        total (estatisticas r) = length (voos r) \<and>
        total (estatisticas r) =
          travellink (fontes (estatisticas r)) + amadeus (fontes (estatisticas r)) +
          aviationstack (fontes (estatisticas r)) \<and>
        list_all (\<lambda>f. fonte f = ''TRAVELLINK'' \<or> fonte f = ''AMADEUS'' \<or> fonte f = ''AVIATIONSTACK'')
          (voos r))"
  using count_by_source [OF multi_sources [of cfg H W orig dest dIda dVolta "filter (enabled cfg) (order_of (settles W))"]]
        multi_sources [of cfg H W orig dest dIda dVolta "filter (enabled cfg) (order_of (settles W))"]
  by (simp add: multi_result Let_def)




lemma example_tries:
  "isl (search_try example_host example_remote ''GRU'' ''SDU'' ''2025-12-25'' None TRAVELLINK)"
  "\<not> isl (search_try example_host example_remote ''GRU'' ''SDU'' ''2025-12-25'' None AMADEUS)"
  "\<not> isl (search_try example_host example_remote ''GRU'' ''SDU'' ''2025-12-25'' None AVIATIONSTACK)"
  by (simp_all add: search_try_def searchTravelLink_try_def searchAmadeus_try_def
      searchAviationStack_try_def format_date_def format_date_opt_def or_null_def isoDate_def
      getAmadeusToken_def example_host_def example_remote_def Let_def)


lemma example_parse_price: "example_parseFloat ''129.90'' = Some (1299 / 10)"
  by code_simp

lemma example_found_amadeus:
  "found (search_try example_host example_remote ''GRU'' ''SDU'' ''2025-12-25'' None AMADEUS) =
     [normalizeFlight example_host (draw example_host 0 0)
        (amadeus_voo_in example_host example_amadeus_offer 0) ''AMADEUS'']"
  by (simp add: search_try_def searchAmadeus_try_def format_date_def format_date_opt_def
      or_null_def isoDate_def getAmadeusToken_def example_host_def example_remote_def Let_def
      found_def map_index_def)

lemma example_found_aviation:
  "found (search_try example_host example_remote ''GRU'' ''SDU'' ''2025-12-25'' None AVIATIONSTACK) =
     [normalizeFlight example_host (draw example_host 0 0)
        (aviation_voo_in example_host (getCityCode ''GRU'') (getCityCode ''SDU'')
           example_aviation_flight 0) ''AVIATIONSTACK'']"
  by (simp add: search_try_def searchAviationStack_try_def format_date_def format_date_opt_def
      or_null_def isoDate_def example_host_def example_remote_def Let_def
      found_def map_index_def)

lemma example_amadeus_fields:
  "companhia (normalizeFlight example_host r (amadeus_voo_in example_host example_amadeus_offer 0) ''AMADEUS'') = ''LATAM''"
  "confiabilidade (normalizeFlight example_host r (amadeus_voo_in example_host example_amadeus_offer 0) ''AMADEUS'') = 1"
  by (simp_all add: normalizeFlight_def amadeus_voo_in_def offer_voo_in_def example_amadeus_offer_def
      Let_def first_segment_def text_or_def or_str_def lookup_or_def companhiaMap_def
      calculateReliability_def has_ida_def has_preco_def truthy_preco_def parseFloat_of_def
      example_host_def example_parse_price)

lemma example_aviation_fields:
  "companhia (normalizeFlight example_host r (aviation_voo_in example_host oc dc example_aviation_flight 0) ''AVIATIONSTACK'') = ''GOL''"
  "confiabilidade (normalizeFlight example_host r (aviation_voo_in example_host oc dc example_aviation_flight 0) ''AVIATIONSTACK'') = 0.8"
  by (simp_all add: normalizeFlight_def aviation_voo_in_def example_aviation_flight_def
      Let_def text_or_def or_str_def
      calculateReliability_def has_ida_def has_preco_def truthy_preco_def parseFloat_of_def
      example_host_def example_parse_zero)

lemma example_keys_differ:
  "dedup_key (normalizeFlight example_host r (amadeus_voo_in example_host example_amadeus_offer 0) ''AMADEUS'') \<noteq>
   dedup_key (normalizeFlight example_host r' (aviation_voo_in example_host oc dc example_aviation_flight 0) ''AVIATIONSTACK'')"
proof -
  have "companhia (normalizeFlight example_host r (amadeus_voo_in example_host example_amadeus_offer 0) ''AMADEUS'') = ''LATAM''"
    by (rule example_amadeus_fields)
  moreover have "companhia (normalizeFlight example_host r' (aviation_voo_in example_host oc dc example_aviation_flight 0) ''AVIATIONSTACK'') = ''GOL''"
    by (rule example_aviation_fields)
  moreover have "xs @ ''LATAM'' \<noteq> ys @ ''GOL''" for xs ys :: string
  proof
    assume "xs @ ''LATAM'' = ys @ ''GOL''"
    then have "last (xs @ ''LATAM'') = last (ys @ ''GOL'')" by simp
    then show False by simp
  qed
  ultimately show ?thesis
    by (simp add: dedup_key_def del: append_assoc flip: append_assoc)
qed

lemma example_voos:
  "map fonte (js_sort compareFlights (deduplicateFlights
      (found (search_try example_host example_remote ''GRU'' ''SDU'' ''2025-12-25'' None AMADEUS) @
       found (search_try example_host example_remote ''GRU'' ''SDU'' ''2025-12-25'' None AVIATIONSTACK)))) =
   [''AMADEUS'', ''AVIATIONSTACK'']"
  using example_keys_differ [THEN not_sym]
  by (simp add: example_found_amadeus example_found_aviation deduplicateFlights_def dedup_loop_def
      dedup_step_def Let_def js_sort_def compareFlights_def example_amadeus_fields
      example_aviation_fields fonte_normalizeFlight)

lemma example_search:
  "(case searchFlightsMultiAPI example_host example_config example_remote
           ''GRU'' ''SDU'' ''2025-12-25'' None of
      Inl e \<Rightarrow> False
    | Inr r \<Rightarrow> map fonte (voos r) = [''AMADEUS'', ''AVIATIONSTACK''] \<and>
               length (erros (estatisticas r)) = 0)"
proof -
  have "found (search_try example_host example_remote ''GRU'' ''SDU'' ''2025-12-25'' None TRAVELLINK) = []"
    using example_tries(1)
    by (cases "search_try example_host example_remote ''GRU'' ''SDU'' ''2025-12-25'' None TRAVELLINK")
       (simp_all add: found_def)
  then show ?thesis
    using example_voos
    by (simp add: multi_result Let_def example_config_def enabled_def example_remote_def)
qed


theorem stats_consistent_witness:
  "(case searchFlightsMultiAPI example_host example_config example_remote
           ''GRU'' ''SDU'' ''2025-12-25'' None of
      Inl e \<Rightarrow> False
    | Inr r \<Rightarrow>
        total (estatisticas r) = 2 \<and> length (voos r) = 2 \<and>
        travellink (fontes (estatisticas r)) + amadeus (fontes (estatisticas r)) +
        aviationstack (fontes (estatisticas r)) = 2)"
proof -
  obtain r where r: "searchFlightsMultiAPI example_host example_config example_remote
                       ''GRU'' ''SDU'' ''2025-12-25'' None = Inr r"
    by (simp add: multi_result Let_def)
  have "map fonte (voos r) = [''AMADEUS'', ''AVIATIONSTACK'']"
    using example_search r by simp
  then have "length (map fonte (voos r)) = 2"
    by simp
  then have "length (voos r) = 2"
    by simp
  then show ?thesis
    using stats_consistent [of example_host example_config example_remote
            "''GRU''" "''SDU''" "''2025-12-25''" None] r
    by simp
qed

section \<open>Properties of the SOAP adapter\<close>







section \<open>Properties of the public search\<close>

lemma deduplicateFlights_Nil: "deduplicateFlights [] = []"
  by (simp add: deduplicateFlights_def dedup_loop_def)

lemma js_sort_Nil: "js_sort cmp [] = []"
  by (simp add: js_sort_def)

lemma concat_all_Nil: "(\<And>p. p \<in> set ps \<Longrightarrow> g p = []) \<Longrightarrow> concat (map g ps) = []"
  by (induction ps) simp_all

lemma multi_voos_empty:
  assumes "\<forall>p. enabled cfg p \<longrightarrow> found (search_try H W orig dest dIda dVolta p) = []"
  shows "\<exists>r. searchFlightsMultiAPI H cfg W orig dest dIda dVolta = Inr r \<and> voos r = []"
proof -
  have c: "concat (map (\<lambda>p. if enabled cfg p then found (search_try H W orig dest dIda dVolta p) else [])
                  (filter (enabled cfg) (order_of (settles W)))) = []"
    using assms by (intro concat_all_Nil) simp
  show ?thesis
    unfolding multi_result Let_def c deduplicateFlights_Nil js_sort_Nil by simp
qed

lemma searchFlights_all_failed:
  assumes "useMultiAPI cfg" and "\<not> USE_MOCK_FLIGHTS cfg"
    and "\<forall>p. enabled cfg p \<longrightarrow> isl (search_try H W orig dest dIda dVolta p)"
  shows "searchFlights H cfg W orig dest dIda dVolta = Inr []"
proof -
  have "\<forall>p. enabled cfg p \<longrightarrow> found (search_try H W orig dest dIda dVolta p) = []"
  proof (intro allI impI)
    fix p assume "enabled cfg p"
    then have "isl (search_try H W orig dest dIda dVolta p)"
      using assms(3) by simp
    then show "found (search_try H W orig dest dIda dVolta p) = []"
      by (cases "search_try H W orig dest dIda dVolta p") (simp_all add: found_def)
  qed
  then obtain r where "searchFlightsMultiAPI H cfg W orig dest dIda dVolta = Inr r" "voos r = []"
    using multi_voos_empty by blast
  then show ?thesis
    using assms(1,2)
    by (simp add: searchFlights_def searchFlights_multi_try_def USE_MOCK_DATA_def)
qed

text \<open>
  Claim C2, as the code has it. When at least one provider is enabled, the search of
  every enabled provider raises and the synthetic fallback is off, the public search
  returns the empty list and raises nothing: the adapters have turned the errors into
  empty lists, and for an empty list \<open>searchFlights\<close> returns \<open>[]\<close>, as its comment says,
  instead of raising.
\<close>

theorem total_failure_returns_empty:
  assumes "useMultiAPI cfg" and "\<not> USE_MOCK_FLIGHTS cfg"
    and "\<forall>p. enabled cfg p \<longrightarrow> isl (search_try H W orig dest dIda dVolta p)"
  shows "searchFlights H cfg W orig dest dIda dVolta = Inr []"
  using assms by (rule searchFlights_all_failed)

lemma example_down_tries:
  "isl (search_try example_host example_remote_down ''GRU'' ''SDU'' ''2025-12-25'' None p)"
  by (cases p)
     (simp_all add: search_try_def searchTravelLink_try_def searchAmadeus_try_def
        searchAviationStack_try_def format_date_def format_date_opt_def or_null_def isoDate_def
        getAmadeusToken_def example_host_def example_remote_def example_remote_down_def Let_def)

theorem total_failure_returns_empty_witness:
  "useMultiAPI example_config \<and> \<not> USE_MOCK_FLIGHTS example_config \<and>
   enabled example_config TRAVELLINK \<and>
   isl (search_try example_host example_remote_down ''GRU'' ''SDU'' ''2025-12-25'' None TRAVELLINK) \<and>
   enabled example_config AMADEUS \<and>
   isl (search_try example_host example_remote_down ''GRU'' ''SDU'' ''2025-12-25'' None AMADEUS) \<and>
   enabled example_config AVIATIONSTACK \<and>
   isl (search_try example_host example_remote_down ''GRU'' ''SDU'' ''2025-12-25'' None AVIATIONSTACK) \<and>
   searchFlights example_host example_config example_remote_down ''GRU'' ''SDU'' ''2025-12-25'' None =
     Inr []"
proof -
  have a: "useMultiAPI example_config"
    by (simp add: useMultiAPI_def example_config_def)
  have b: "\<not> USE_MOCK_FLIGHTS example_config"
    by (simp add: example_config_def)
  have c: "\<forall>p. enabled example_config p \<longrightarrow>
        isl (search_try example_host example_remote_down ''GRU'' ''SDU'' ''2025-12-25'' None p)"
    using example_down_tries by simp
  have e: "enabled example_config p" for p
    by (cases p) (simp_all add: enabled_def example_config_def)
  show ?thesis
    using total_failure_returns_empty [OF a b c] a b e example_down_tries by simp
qed


text \<open>The claim as the spec words it fails: nothing can be reached, the fallback is off,
  and the search returns the empty list.\<close>

theorem total_failure_counterexample:
  "isl (search_try example_host example_remote_down ''GRU'' ''SDU'' ''2025-12-25'' None TRAVELLINK) \<and>
   isl (search_try example_host example_remote_down ''GRU'' ''SDU'' ''2025-12-25'' None AMADEUS) \<and>
   isl (search_try example_host example_remote_down ''GRU'' ''SDU'' ''2025-12-25'' None AVIATIONSTACK) \<and>
   \<not> USE_MOCK_FLIGHTS example_config \<and>
   searchFlights example_host example_config example_remote_down ''GRU'' ''SDU'' ''2025-12-25'' None =
     Inr []"
proof -
  have a: "useMultiAPI example_config"
    by (simp add: useMultiAPI_def example_config_def)
  have b: "\<not> USE_MOCK_FLIGHTS example_config"
    by (simp add: example_config_def)
  have c: "\<forall>p. enabled example_config p \<longrightarrow>
        isl (search_try example_host example_remote_down ''GRU'' ''SDU'' ''2025-12-25'' None p)"
    using example_down_tries by simp
  show ?thesis
    using searchFlights_all_failed [OF a b c] b example_down_tries by simp
qed

lemma travellink_dates:
  assumes "searchTravelLink_try H W orig dest dIda dVolta = Inr flights"
  shows "\<exists>d1 d2. format_date H dIda = Inr d1 \<and> format_date_opt H dVolta = Inr d2"
  using assms by (auto simp: searchTravelLink_try_def Let_def split: sum.splits)

lemma generateMockFlights_dates:
  assumes "format_date H dIda = Inr d1" and "format_date_opt H dVolta = Inr d2"
  shows "\<exists>t0 tv. generateMockFlights H orig dest dIda dVolta =
           Inr (js_sort (compareMock H) (map (mock_flight H orig dest t0 tv) [0..<15]))"
  using assms
  by (auto simp: generateMockFlights_def format_date_def format_date_opt_def isoDate_def
        date_value_def split: option.splits)

lemma mock_flight_link: "in_linkReserva (mock_flight H orig dest t0 tv i) = ''MOCK''"
  by (simp add: mock_flight_def Let_def)

lemma mock_list:
  "length (js_sort (compareMock H) (map (mock_flight H orig dest t0 tv) [0..<15])) = 15 \<and>
   list_all (\<lambda>g. in_linkReserva g = ''MOCK'')
     (js_sort (compareMock H) (map (mock_flight H orig dest t0 tv) [0..<15]))"
  by (auto simp: length_js_sort list_all_iff set_js_sort mock_flight_link)

lemma searchFlights_all_empty:
  assumes "travellink_enabled cfg" and "USE_MOCK_FLIGHTS cfg"
    and "\<forall>p. enabled cfg p \<longrightarrow> search_try H W orig dest dIda dVolta p = Inr []"
  shows "\<exists>flights. generateMockFlights H orig dest dIda dVolta = Inr flights \<and>
           searchFlights H cfg W orig dest dIda dVolta = Inr (map Plain flights) \<and>
           length flights = 15 \<and>
           list_all (\<lambda>g. in_linkReserva g = ''MOCK'') flights"
proof -
  have tl: "searchTravelLink_try H W orig dest dIda dVolta = Inr []"
    using assms(1,3) by (auto simp: enabled_def search_try_def dest: spec [of _ TRAVELLINK])
  obtain d1 d2 where "format_date H dIda = Inr d1" "format_date_opt H dVolta = Inr d2"
    using travellink_dates [OF tl] by blast
  then obtain t0 tv where g: "generateMockFlights H orig dest dIda dVolta =
           Inr (js_sort (compareMock H) (map (mock_flight H orig dest t0 tv) [0..<15]))"
    using generateMockFlights_dates by blast
  have "\<forall>p. enabled cfg p \<longrightarrow> found (search_try H W orig dest dIda dVolta p) = []"
    using assms(3) by (simp add: found_def)
  then obtain r where r: "searchFlightsMultiAPI H cfg W orig dest dIda dVolta = Inr r" "voos r = []"
    using multi_voos_empty by blast
  have "searchFlights H cfg W orig dest dIda dVolta =
          Inr (map Plain (js_sort (compareMock H) (map (mock_flight H orig dest t0 tv) [0..<15])))"
    using assms(1,2) r g
    by (simp add: searchFlights_def searchFlights_multi_try_def USE_MOCK_DATA_def useMultiAPI_def
        mock_offers_def)
  then show ?thesis
    using g mock_list [of H orig dest t0 tv] by simp
qed

text \<open>
  Claim C6, as the code has it. With the SOAP provider enabled, as the configuration of
  the source has it, when the search of every enabled provider ends without an error and
  without an offer and the synthetic fallback is on, the public search returns the output
  of \<open>generateMockFlights\<close>: fifteen offers, each with \<open>linkReserva\<close> equal to \<open>MOCK\<close>. The
  generator does not pass its offers through \<open>normalizeFlight\<close>, so they have no \<open>fonte\<close>.
\<close>

theorem mock_fallback:
  assumes "travellink_enabled cfg" and "USE_MOCK_FLIGHTS cfg"
    and "\<forall>p. enabled cfg p \<longrightarrow> search_try H W orig dest dIda dVolta p = Inr []"
  shows "\<exists>flights. generateMockFlights H orig dest dIda dVolta = Inr flights \<and>
           searchFlights H cfg W orig dest dIda dVolta = Inr (map Plain flights) \<and>
           length flights = 15 \<and>
           list_all (\<lambda>x. offer_linkReserva x = ''MOCK'' \<and> offer_fonte x = None)
             (map Plain flights)"
proof -
  obtain flights where f: "generateMockFlights H orig dest dIda dVolta = Inr flights"
    "searchFlights H cfg W orig dest dIda dVolta = Inr (map Plain flights)"
    "length flights = 15" "list_all (\<lambda>g. in_linkReserva g = ''MOCK'') flights"
    using searchFlights_all_empty [OF assms] by blast
  have "list_all (\<lambda>x. offer_linkReserva x = ''MOCK'' \<and> offer_fonte x = None) (map Plain flights)"
    using f(4) by (simp add: list_all_iff offer_linkReserva_def offer_fonte_def)
  with f show ?thesis by blast
qed

lemma example_empty_tries:
  "search_try example_host example_remote_empty ''GRU'' ''SDU'' ''2025-12-25'' None p = Inr []"
  by (cases p)
     (simp_all add: search_try_def searchTravelLink_try_def searchAmadeus_try_def
        searchAviationStack_try_def format_date_def format_date_opt_def or_null_def isoDate_def
        getAmadeusToken_def example_host_def example_remote_def example_remote_empty_def
        example_client_def processarResultadosTravelLink_def processarResultadosTravelLink_try_def
        props_or_def wrapper_keys_def get_prop_def Let_def)

lemma example_mock_search:
  "\<exists>flights. searchFlights example_host example_config_mock example_remote_empty
                 ''GRU'' ''SDU'' ''2025-12-25'' None = Inr (map Plain flights) \<and>
              length flights = 15"
proof -
  have a: "travellink_enabled example_config_mock" "USE_MOCK_FLIGHTS example_config_mock"
    by (simp_all add: example_config_mock_def example_config_def)
  show ?thesis
    using searchFlights_all_empty [OF a, of example_host example_remote_empty
            "''GRU''" "''SDU''" "''2025-12-25''" None] example_empty_tries
    by auto
qed

theorem mock_fallback_witness:
  "travellink_enabled example_config_mock \<and> USE_MOCK_FLIGHTS example_config_mock \<and>
   enabled example_config_mock TRAVELLINK \<and>
   search_try example_host example_remote_empty ''GRU'' ''SDU'' ''2025-12-25'' None TRAVELLINK = Inr [] \<and>
   enabled example_config_mock AMADEUS \<and>
   search_try example_host example_remote_empty ''GRU'' ''SDU'' ''2025-12-25'' None AMADEUS = Inr [] \<and>
   enabled example_config_mock AVIATIONSTACK \<and>
   search_try example_host example_remote_empty ''GRU'' ''SDU'' ''2025-12-25'' None AVIATIONSTACK = Inr [] \<and>
   (\<exists>flights. generateMockFlights example_host ''GRU'' ''SDU'' ''2025-12-25'' None = Inr flights \<and>
        searchFlights example_host example_config_mock example_remote_empty
          ''GRU'' ''SDU'' ''2025-12-25'' None = Inr (map Plain flights) \<and>
        length flights = 15 \<and>
        list_all (\<lambda>x. offer_linkReserva x = ''MOCK'' \<and> offer_fonte x = None) (map Plain flights))"
proof -
  have a: "travellink_enabled example_config_mock" "USE_MOCK_FLIGHTS example_config_mock"
    by (simp_all add: example_config_mock_def example_config_def)
  have c: "\<forall>p. enabled example_config_mock p \<longrightarrow>
        search_try example_host example_remote_empty ''GRU'' ''SDU'' ''2025-12-25'' None p = Inr []"
    using example_empty_tries by simp
  have e: "enabled example_config_mock p" for p
    by (cases p) (simp_all add: enabled_def example_config_mock_def example_config_def)
  show ?thesis
    using mock_fallback [OF a c] a e example_empty_tries by simp
qed

text \<open>The claim as the spec words it fails: the fifteen synthetic offers have no source
  stamp, so none has the source \<open>MOCK\<close>.\<close>

theorem mock_source_counterexample:
  "search_try example_host example_remote_empty ''GRU'' ''SDU'' ''2025-12-25'' None TRAVELLINK = Inr [] \<and>
   search_try example_host example_remote_empty ''GRU'' ''SDU'' ''2025-12-25'' None AMADEUS = Inr [] \<and>
   search_try example_host example_remote_empty ''GRU'' ''SDU'' ''2025-12-25'' None AVIATIONSTACK = Inr [] \<and>
   USE_MOCK_FLIGHTS example_config_mock \<and>
   (case searchFlights example_host example_config_mock example_remote_empty
           ''GRU'' ''SDU'' ''2025-12-25'' None of
      Inl e \<Rightarrow> False
    | Inr offers \<Rightarrow> length offers = 15 \<and> list_all (\<lambda>x. offer_fonte x \<noteq> Some ''MOCK'') offers)"
proof -
  obtain flights where f: "searchFlights example_host example_config_mock example_remote_empty
                 ''GRU'' ''SDU'' ''2025-12-25'' None = Inr (map Plain flights)" "length flights = 15"
    using example_mock_search by blast
  have "list_all (\<lambda>x. offer_fonte x \<noteq> Some ''MOCK'') (map Plain flights)"
    by (simp add: list_all_iff offer_fonte_def)
  then show ?thesis
    using f example_empty_tries by (simp add: example_config_mock_def)
qed

section \<open>Properties of the price confirmation\<close>

lemma map_index_nth:
  "map_index f xs = map (\<lambda>i. f (xs ! i) i) [0..<length xs]"
proof (rule nth_equalityI)
  show "length (map_index f xs) = length (map (\<lambda>i. f (xs ! i) i) [0..<length xs])"
    by (simp add: map_index_def)
next
  fix i assume "i < length (map_index f xs)"
  then have i: "i < length xs" by (simp add: map_index_def)
  then show "map_index f xs ! i = map (\<lambda>i. f (xs ! i) i) [0..<length xs] ! i"
    by (simp add: map_index_def nth_enumerate_eq)
qed

lemma map_index_const: "map_index (\<lambda>x i. f x) xs = map f xs"
proof -
  have "map_index (\<lambda>x i. f x) xs = map (\<lambda>i. f (xs ! i)) [0..<length xs]"
    by (rule map_index_nth)
  also have "\<dots> = map f (map (\<lambda>i. xs ! i) [0..<length xs])"
    by simp
  also have "\<dots> = map f xs"
    by (simp only: map_nth)
  finally show ?thesis .
qed

lemma confirmFlightPrice_requests:
  "set (snd (confirmFlightPrice H cfg W offer)) \<subseteq> {offer} \<and>
   length (snd (confirmFlightPrice H cfg W offer)) \<le> 1"
  by (simp add: confirmFlightPrice_def split: sum.splits option.splits list.splits)

lemma concat_requests:
  "set (concat (map (\<lambda>offer. snd (confirmFlightPrice H cfg W offer)) xs)) \<subseteq> set xs \<and>
   length (concat (map (\<lambda>offer. snd (confirmFlightPrice H cfg W offer)) xs)) \<le> length xs"
proof (induction xs)
  case Nil
  then show ?case by simp
next
  case (Cons x xs)
  have "set (snd (confirmFlightPrice H cfg W x)) \<subseteq> {x}"
    and "length (snd (confirmFlightPrice H cfg W x)) \<le> 1"
    using confirmFlightPrice_requests [of H cfg W x] by simp_all
  with Cons show ?case by auto
qed

lemma confirmed_by_index:
  fixes g :: "amadeus_offer \<Rightarrow> js_error + confirmed_price"
  shows "concat (map_index
           (\<lambda>result index.
              case result of
                Inr value \<Rightarrow> [\<lparr> co_offer = flightOffers ! index, precoConfirmado = value,
                                precoOriginal = offer_total (flightOffers ! index) \<rparr>]
              | Inl error \<Rightarrow> [])
           (map g (take n flightOffers))) =
         concat (map
           (\<lambda>offer.
              case g offer of
                Inr value \<Rightarrow> [\<lparr> co_offer = offer, precoConfirmado = value,
                                precoOriginal = offer_total offer \<rparr>]
              | Inl error \<Rightarrow> [])
           (take n flightOffers))"
proof -
  let ?offs = "take n flightOffers"
  let ?h = "\<lambda>offer. case g offer of
                Inr value \<Rightarrow> [\<lparr> co_offer = offer, precoConfirmado = value,
                                precoOriginal = offer_total offer \<rparr>]
              | Inl error \<Rightarrow> []"
  have "map_index
           (\<lambda>result index.
              case result of
                Inr value \<Rightarrow> [\<lparr> co_offer = flightOffers ! index, precoConfirmado = value,
                                precoOriginal = offer_total (flightOffers ! index) \<rparr>]
              | Inl error \<Rightarrow> [])
           (map g ?offs) =
        map (\<lambda>i. ?h (?offs ! i)) [0..<length ?offs]"
    unfolding map_index_nth by (rule map_cong) (auto split: sum.splits)
  also have "\<dots> = map ?h (map (\<lambda>i. ?offs ! i) [0..<length ?offs])"
    by simp
  also have "\<dots> = map ?h ?offs"
    by (simp only: map_nth)
  finally show ?thesis by simp
qed

text \<open>
  Claim C8. For every list of offers, \<open>confirmMultipleFlightPrices\<close> returns, and what it
  returns is, in the order of the offers, each of the first five whose confirmation
  succeeded, with the confirmed price and its own original price; a confirmation that
  fails leaves its offer out and raises nothing. Every pricing request that is sent is
  sent for one of the first five offers, and at most five are sent.
\<close>

theorem confirm_batch:
  "fst (confirmMultipleFlightPrices H cfg W flightOffers) =
     Inr (concat (map
            (\<lambda>offer.
               case fst (confirmFlightPrice H cfg W offer) of
                 Inr value \<Rightarrow> [\<lparr> co_offer = offer, precoConfirmado = value,
                                 precoOriginal = offer_total offer \<rparr>]
               | Inl error \<Rightarrow> [])
            (take 5 flightOffers))) \<and>
   snd (confirmMultipleFlightPrices H cfg W flightOffers) =
     concat (map (\<lambda>offer. snd (confirmFlightPrice H cfg W offer)) (take 5 flightOffers)) \<and>
   set (snd (confirmMultipleFlightPrices H cfg W flightOffers)) \<subseteq> set (take 5 flightOffers) \<and>
   length (snd (confirmMultipleFlightPrices H cfg W flightOffers)) \<le> 5"
proof (cases "length flightOffers = 0")
  case True
  then show ?thesis by (simp add: confirmMultipleFlightPrices_def)
next
  case False
  have f: "fst (confirmMultipleFlightPrices H cfg W flightOffers) =
     Inr (concat (map
            (\<lambda>offer.
               case fst (confirmFlightPrice H cfg W offer) of
                 Inr value \<Rightarrow> [\<lparr> co_offer = offer, precoConfirmado = value,
                                 precoOriginal = offer_total offer \<rparr>]
               | Inl error \<Rightarrow> [])
            (take 5 flightOffers)))"
    using False confirmed_by_index [of flightOffers "\<lambda>offer. fst (confirmFlightPrice H cfg W offer)" 5]
    by (simp add: confirmMultipleFlightPrices_def Let_def map_index_const comp_def)
  have s: "snd (confirmMultipleFlightPrices H cfg W flightOffers) =
     concat (map (\<lambda>offer. snd (confirmFlightPrice H cfg W offer)) (take 5 flightOffers))"
    using False
    by (simp add: confirmMultipleFlightPrices_def Let_def map_index_const comp_def)
  have "length (take 5 flightOffers) \<le> 5" by simp
  then show ?thesis
    using f s concat_requests [of H cfg W "take 5 flightOffers"] by simp
qed

lemma example_confirm:
  "confirmFlightPrice example_host example_config example_remote offer =
     (Inr (confirmed_of example_host offer example_priced), [offer])"
  by (simp add: confirmFlightPrice_def example_config_def example_remote_def getAmadeusToken_def)

theorem confirm_batch_witness:
  "length example_offers = 7 \<and>
   snd (confirmMultipleFlightPrices example_host example_config example_remote example_offers) =
     take 5 example_offers \<and>
   fst (confirmMultipleFlightPrices example_host example_config example_remote example_offers) =
     Inr (map (\<lambda>offer. \<lparr> co_offer = offer,
                           precoConfirmado = confirmed_of example_host offer example_priced,
                           precoOriginal = offer_total offer \<rparr>)
            (take 5 example_offers))"
proof -
  have l: "length example_offers = 7"
    by (simp add: example_offers_def)
  have c: "concat (map (\<lambda>x. [f x]) xs) = map f xs" for f :: "amadeus_offer \<Rightarrow> confirmed_offer" and xs
    by (induction xs) simp_all
  have d: "concat (map (\<lambda>x. [x]) xs) = xs" for xs :: "amadeus_offer list"
    by (induction xs) simp_all
  show ?thesis
    using confirm_batch [of example_host example_config example_remote example_offers] l
    by (simp add: example_confirm c d)
qed

end
